theory Spec2Isabelle
  imports Complex_Main
begin

section \<open>JavaScript numbers\<close>

text \<open>
  The viewer (src/components/MotorcycleModelViewer.tsx) computes with JavaScript numbers.
  Rounding and overflow are not modelled: a finite number is a real. The special values
  are modelled where the source divides, because there a finite input can produce them:
  \<open>x / 0\<close> is an infinity and \<open>0 / 0\<close> is NaN, and \<open>Math.min\<close> and
  \<open>Math.max\<close> return NaN as soon as one argument is NaN. Zero is the positive zero
  (every divisor of the source is a square root or a positive literal).

  The rotation path of the gesture handler only adds, multiplies and takes minima and
  maxima of finite numbers, so its values are reals. The zoom path divides, so its values
  are \<open>jsnum\<close>.
\<close>

datatype jsnum = Fin real | PInf | NInf | NaN

fun js_mul :: "jsnum \<Rightarrow> jsnum \<Rightarrow> jsnum" where
  "js_mul NaN b = NaN"
| "js_mul a NaN = NaN"
| "js_mul (Fin a) (Fin b) = Fin (a * b)"
| "js_mul (Fin a) PInf = (if a = 0 then NaN else if 0 < a then PInf else NInf)"
| "js_mul (Fin a) NInf = (if a = 0 then NaN else if 0 < a then NInf else PInf)"
| "js_mul PInf (Fin b) = (if b = 0 then NaN else if 0 < b then PInf else NInf)"
| "js_mul NInf (Fin b) = (if b = 0 then NaN else if 0 < b then NInf else PInf)"
| "js_mul PInf PInf = PInf"
| "js_mul PInf NInf = NInf"
| "js_mul NInf PInf = NInf"
| "js_mul NInf NInf = PInf"

fun js_div :: "jsnum \<Rightarrow> jsnum \<Rightarrow> jsnum" where
  "js_div NaN b = NaN"
| "js_div a NaN = NaN"
| "js_div (Fin a) (Fin b) =
     (if b = 0 then (if a = 0 then NaN else if 0 < a then PInf else NInf)
      else Fin (a / b))"
| "js_div (Fin a) PInf = Fin 0"
| "js_div (Fin a) NInf = Fin 0"
| "js_div PInf (Fin b) = (if 0 \<le> b then PInf else NInf)"
| "js_div NInf (Fin b) = (if 0 \<le> b then NInf else PInf)"
| "js_div PInf PInf = NaN"
| "js_div PInf NInf = NaN"
| "js_div NInf PInf = NaN"
| "js_div NInf NInf = NaN"

text \<open>\<open>Math.min\<close> and \<open>Math.max\<close> of two arguments.\<close>

fun js_min :: "jsnum \<Rightarrow> jsnum \<Rightarrow> jsnum" where
  "js_min NaN b = NaN"
| "js_min a NaN = NaN"
| "js_min NInf b = NInf"
| "js_min a NInf = NInf"
| "js_min PInf b = b"
| "js_min a PInf = a"
| "js_min (Fin a) (Fin b) = Fin (min a b)"

fun js_max :: "jsnum \<Rightarrow> jsnum \<Rightarrow> jsnum" where
  "js_max NaN b = NaN"
| "js_max a NaN = NaN"
| "js_max PInf b = PInf"
| "js_max a PInf = PInf"
| "js_max NInf b = b"
| "js_max a NInf = a"
| "js_max (Fin a) (Fin b) = Fin (max a b)"

text \<open>A number lies in the closed interval from \<open>lo\<close> to \<open>hi\<close>: it is finite and within the bounds.\<close>

fun in_interval :: "real \<Rightarrow> real \<Rightarrow> jsnum \<Rightarrow> bool" where
  "in_interval lo hi (Fin r) = (lo \<le> r \<and> r \<le> hi)"
| "in_interval lo hi PInf = False"
| "in_interval lo hi NInf = False"
| "in_interval lo hi NaN = False"

section \<open>Scene graph\<close>

text \<open>
  The part of three.js the viewer touches. A texture is known by its identity only. A
  material's \<open>color\<close> is a \<open>THREE.Color\<close> (its hex value) or the stand-in object
  \<open>{ r, g, b, setHex: () => {} }\<close> the loader installs when a material has none; the
  stand-in ignores \<open>setHex\<close>. \<open>emissive\<close> is absent on materials that have no such
  property (\<open>MeshBasicMaterial\<close>).
\<close>

type_synonym texture = nat

datatype color = Color nat | ColorStub

record material =
  mat_name :: string
  map_tex :: "texture option"
  normalMap :: "texture option"
  roughnessMap :: "texture option"
  metalnessMap :: "texture option"
  aoMap :: "texture option"
  emissiveMap :: "texture option"
  color :: "color option"
  emissive :: "nat option"
  metalness :: real
  roughness :: real
  opacity :: real
  transparent :: bool
  side :: nat
  needsUpdate :: bool

text \<open>The material slot of a mesh: one material, or an array of materials.\<close>

datatype material_slot = Single material | Multi "material list"

text \<open>
  A geometry: a \<open>BoxGeometry\<close> with its three sizes, or any other buffer geometry, of
  which only \<open>attributes.position.count\<close> is read (absent when the geometry has no
  position attribute).
\<close>

datatype geometry = BoxGeometry real real real | BufferGeometry "nat option"

text \<open>
  The own fields of an \<open>Object3D\<close>. Position and scale are left out: no handler reads
  them. The z rotation is never written and left out too.
\<close>

record object_props =
  isMesh :: bool
  obj_name :: string
  material :: "material_slot option"
  geometry :: "geometry option"
  castShadow :: bool
  receiveShadow :: bool
  rotation_x :: real
  rotation_y :: real

datatype object3d = Object3D (props: object_props) (children: "object3d list")

section \<open>Viewer state\<close>

text \<open>
  The camera: its position and the point last passed to \<open>lookAt\<close>. The z position is
  computed from the zoom factor in the pinch handler, so it is a \<open>jsnum\<close>.
\<close>

record camera =
  position_x :: real
  position_y :: real
  position_z :: jsnum
  target_x :: real
  target_y :: real
  target_z :: real

record pinchData =
  initialDistance :: "real option"
  initialZoom :: "jsnum option"

text \<open>
  The refs and React state of \<open>MotorcycleModelViewer\<close>, and the local \<open>scene\<close> of
  \<open>onContextCreate\<close> (its children). \<open>bikeModelRef\<close> holds the model object itself:
  the source reads and writes the model's rotation only through this ref.
  \<open>frameRequested\<close> says that a \<open>requestAnimationFrame(render)\<close> is pending.
  \<open>framesRendered\<close> counts the calls of \<open>render\<close> and \<open>mounted\<close> records whether the
  component is still mounted; no code of the source reads either of them.
\<close>

record viewer =
  cameraRef :: "camera option"
  bikeModelRef :: "object3d option"
  rotationRef_x :: real
  rotationRef_y :: real
  zoomRef :: jsnum
  velocityRef_x :: real
  velocityRef_y :: real
  pinchDataRef :: pinchData
  loading :: bool
  error :: "string option"
  modelLoaded :: bool
  scene :: "object3d list"
  frameRequested :: bool
  framesRendered :: nat
  mounted :: bool

text \<open>The initial values of the \<open>useRef\<close> and \<open>useState\<close> calls (lines 321 to 336).\<close>

definition initialViewer :: viewer where
  "initialViewer =
     \<lparr>cameraRef = None, bikeModelRef = None, rotationRef_x = 0, rotationRef_y = 0,
      zoomRef = Fin 2.0, velocityRef_x = 0, velocityRef_y = 0,
      pinchDataRef = \<lparr>initialDistance = None, initialZoom = None\<rparr>,
      loading = True, error = None, modelLoaded = False, scene = [],
      frameRequested = False, framesRendered = 0, mounted = True\<rparr>"

section \<open>Gesture handlers\<close>

record touch =
  pageX :: real
  pageY :: real

record gestureState =
  dx :: real
  dy :: real

fun set_rotation :: "real \<Rightarrow> real \<Rightarrow> object3d \<Rightarrow> object3d" where
  "set_rotation rx ry (Object3D p cs) = Object3D (p\<lparr>rotation_x := rx, rotation_y := ry\<rparr>) cs"

text \<open>\<open>onPanResponderGrant\<close> (lines 411 to 421).\<close>

definition onPanResponderGrant :: "viewer \<Rightarrow> viewer" where
  "onPanResponderGrant s =
     (let s1 = (case bikeModelRef s of
                  Some m \<Rightarrow> s\<lparr>rotationRef_x := rotation_x (props m),
                               rotationRef_y := rotation_y (props m)\<rparr>
                | None \<Rightarrow> s)
      in s1\<lparr>velocityRef_x := 0, velocityRef_y := 0,
            pinchDataRef := \<lparr>initialDistance = None, initialZoom = None\<rparr>\<rparr>)"

text \<open>
  The single-touch branch of \<open>onPanResponderMove\<close> (lines 427 to 451): the rotation
  deltas from the cumulative displacement of the gesture, added to \<open>rotationRef\<close>, the
  pitch clamped, both written to the model.
\<close>

definition rotateModel :: "gestureState \<Rightarrow> viewer \<Rightarrow> viewer" where
  "rotateModel g s =
     (let sensitivity = 0.0004;
          deltaY = dx g * sensitivity;
          deltaX = dy g * (sensitivity - 0.0003);
          ry = rotationRef_y s + deltaY;
          rx = max (- pi / 3) (min (pi / 3) (rotationRef_x s + deltaX))
      in s\<lparr>velocityRef_x := deltaX, velocityRef_y := deltaY,
           rotationRef_y := ry, rotationRef_x := rx,
           bikeModelRef := map_option (set_rotation rx ry) (bikeModelRef s)\<rparr>)"

text \<open>
  The two-touch branch (lines 454 to 486). \<open>!pinchDataRef.current.initialDistance\<close>
  holds when the field is undefined or zero.
\<close>

definition pinchDistance :: "touch \<Rightarrow> touch \<Rightarrow> real" where
  "pinchDistance touch1 touch2 =
     sqrt ((pageX touch2 - pageX touch1)\<^sup>2 + (pageY touch2 - pageY touch1)\<^sup>2)"

definition pinchZoom :: "touch \<Rightarrow> touch \<Rightarrow> viewer \<Rightarrow> viewer" where
  "pinchZoom touch1 touch2 s =
     (let distance = pinchDistance touch1 touch2;
          pd = (if initialDistance (pinchDataRef s) = None \<or> initialDistance (pinchDataRef s) = Some 0
                then \<lparr>initialDistance = Some distance, initialZoom = Some (zoomRef s)\<rparr>
                else pinchDataRef s);
          zoomFactor = (case initialDistance pd of
                          Some d0 \<Rightarrow> js_div (Fin d0) (Fin distance)
                        | None \<Rightarrow> NaN);
          newZoom = (case initialZoom pd of
                       Some z0 \<Rightarrow> js_mul z0 zoomFactor
                     | None \<Rightarrow> NaN);
          zoom = js_max (Fin 0.5) (js_min (Fin 12) newZoom)
      in s\<lparr>pinchDataRef := pd, zoomRef := zoom,
           cameraRef := map_option
             (\<lambda>c. c\<lparr>position_x := 1.0, position_y := 0.75,
                     position_z := js_div (js_mul (Fin 4.0) zoom) (Fin 2.0),
                     target_x := 1.0, target_y := - 0.3, target_z := 0\<rparr>)
             (cameraRef s)\<rparr>)"

text \<open>\<open>onPanResponderMove\<close> (lines 423 to 487).\<close>

definition onPanResponderMove :: "touch list \<Rightarrow> gestureState \<Rightarrow> viewer \<Rightarrow> viewer" where
  "onPanResponderMove touches g s =
     (if length touches = 1 \<and> bikeModelRef s \<noteq> None then rotateModel g s
      else if length touches = 2 \<and> cameraRef s \<noteq> None
           then pinchZoom (touches ! 0) (touches ! 1) s
      else s)"

text \<open>\<open>onPanResponderRelease\<close> (lines 489 to 495).\<close>

definition onPanResponderRelease :: "viewer \<Rightarrow> viewer" where
  "onPanResponderRelease s = s\<lparr>pinchDataRef := \<lparr>initialDistance = None, initialZoom = None\<rparr>\<rparr>"

text \<open>The camera as \<open>onContextCreate\<close> sets it up (lines 516 to 519).\<close>

definition initialCamera :: camera where
  "initialCamera =
     \<lparr>position_x = 1.0, position_y = 0.4, position_z = Fin 5.0,
      target_x = 1.0, target_y = - 0.2, target_z = 0\<rparr>"

definition setupCamera :: "viewer \<Rightarrow> viewer" where
  "setupCamera s = s\<lparr>cameraRef := Some initialCamera\<rparr>"

text \<open>A run of move events, each with its touches and its gesture state.\<close>

fun moves :: "(touch list \<times> gestureState) list \<Rightarrow> viewer \<Rightarrow> viewer" where
  "moves [] s = s"
| "moves (e # es) s = moves es (onPanResponderMove (fst e) (snd e) s)"

definition single_touch :: "(touch list \<times> gestureState) \<Rightarrow> bool" where
  "single_touch e = (length (fst e) = 1)"

section \<open>Material classification\<close>

text \<open>
  A name is a string of bytes (UTF-8). \<open>String.prototype.toLowerCase\<close> follows the
  Unicode case mapping, which is not modelled: the classification pass takes the function
  as a parameter, so that what is proved of the pass holds whatever it does to a name.
  \<open>asciiToLowerCase\<close> is what it does to a name of ASCII characters, and is applied
  to such names only. \<open>includes_str\<close> is \<open>String.prototype.includes\<close>; the keywords
  are ASCII, and an ASCII substring of a string is one of its UTF-8 bytes.
\<close>

definition toLowerChar :: "char \<Rightarrow> char" where
  "toLowerChar c =
     (let n = (of_char c :: nat) in if 65 \<le> n \<and> n \<le> 90 then char_of (n + 32) else c)"

definition asciiToLowerCase :: "string \<Rightarrow> string" where
  "asciiToLowerCase s = map toLowerChar s"

fun startsWith :: "string \<Rightarrow> string \<Rightarrow> bool" where
  "startsWith s [] = True"
| "startsWith [] (c # cs) = False"
| "startsWith (x # xs) (c # cs) = (x = c \<and> startsWith xs cs)"

fun includes_str :: "string \<Rightarrow> string \<Rightarrow> bool" where
  "includes_str [] sub = (sub = [])"
| "includes_str (x # xs) sub = (startsWith (x # xs) sub \<or> includes_str xs sub)"

text \<open>
  The source has no category type: the success callback of \<open>loadMotorcycleModel\<close>
  selects one of nine branches (lines 844 to 966) and each branch writes its preset. The
  branches are named here after the categories of the data model, in the order of the
  source. Each keyword test below is the disjunction of \<open>includes\<close> calls of its branch,
  as written.
\<close>

datatype MaterialCategory =
  BodyPaint | Chrome | Rubber | Glass | Light | Seat | AccentDetail | CarbonFiber | Default

definition bodyKeywords :: "string \<Rightarrow> string \<Rightarrow> bool" where
  "bodyKeywords materialName meshName =
     (includes_str materialName ''body'' \<or> includes_str materialName ''fairing'' \<or>
      includes_str materialName ''tank'' \<or> includes_str meshName ''body'' \<or>
      includes_str meshName ''fairing'' \<or> includes_str meshName ''tank'' \<or>
      includes_str meshName ''paint'')"

definition chromeKeywords :: "string \<Rightarrow> string \<Rightarrow> bool" where
  "chromeKeywords materialName meshName =
     (includes_str materialName ''metal'' \<or> includes_str materialName ''chrome'' \<or>
      includes_str meshName ''metal'' \<or> includes_str meshName ''chrome'' \<or>
      includes_str meshName ''silver'' \<or> includes_str meshName ''exhaust'')"

definition rubberKeywords :: "string \<Rightarrow> string \<Rightarrow> bool" where
  "rubberKeywords materialName meshName =
     (includes_str materialName ''rubber'' \<or> includes_str materialName ''tire'' \<or>
      includes_str meshName ''tire'' \<or> includes_str meshName ''wheel'' \<or>
      includes_str meshName ''rubber'')"

definition glassKeywords :: "string \<Rightarrow> string \<Rightarrow> bool" where
  "glassKeywords materialName meshName =
     (includes_str materialName ''glass'' \<or> includes_str materialName ''window'' \<or>
      includes_str materialName ''screen'' \<or> includes_str materialName ''visor'' \<or>
      includes_str meshName ''glass'' \<or> includes_str meshName ''window'' \<or>
      includes_str meshName ''screen'' \<or> includes_str meshName ''visor'')"

definition lightKeywords :: "string \<Rightarrow> string \<Rightarrow> bool" where
  "lightKeywords materialName meshName =
     (includes_str materialName ''light'' \<or> includes_str materialName ''headlight'' \<or>
      includes_str materialName ''taillight'' \<or> includes_str meshName ''light'' \<or>
      includes_str meshName ''lamp'' \<or> includes_str meshName ''led'')"

definition seatKeywords :: "string \<Rightarrow> string \<Rightarrow> bool" where
  "seatKeywords materialName meshName =
     (includes_str materialName ''seat'' \<or> includes_str meshName ''seat'' \<or>
      includes_str meshName ''saddle'')"

definition accentKeywords :: "string \<Rightarrow> string \<Rightarrow> bool" where
  "accentKeywords materialName meshName =
     (includes_str materialName ''accent'' \<or> includes_str materialName ''detail'' \<or>
      includes_str materialName ''stripe'' \<or> includes_str materialName ''logo'' \<or>
      includes_str meshName ''accent'' \<or> includes_str meshName ''detail'' \<or>
      includes_str meshName ''stripe'' \<or> includes_str meshName ''logo'' \<or>
      includes_str meshName ''badge'')"

definition carbonKeywords :: "string \<Rightarrow> string \<Rightarrow> bool" where
  "carbonKeywords materialName meshName =
     (includes_str materialName ''carbon'' \<or> includes_str meshName ''carbon'' \<or>
      includes_str meshName ''fiber'')"

text \<open>
  \<open>geometry.attributes.position.count\<close>, when all of it is there. A \<open>BoxGeometry\<close>
  (one segment a side) has four vertices on each of its six faces.
\<close>

fun positionCount :: "geometry option \<Rightarrow> nat option" where
  "positionCount None = None"
| "positionCount (Some (BoxGeometry w h d)) = Some 24"
| "positionCount (Some (BufferGeometry c)) = c"

text \<open>The last disjunct of the first branch (lines 853 to 856).\<close>

definition largeGeometry :: "geometry option \<Rightarrow> bool" where
  "largeGeometry g = (case positionCount g of None \<Rightarrow> False | Some count \<Rightarrow> 5000 < count)"

definition classify :: "string \<Rightarrow> string \<Rightarrow> geometry option \<Rightarrow> MaterialCategory" where
  "classify materialName meshName g =
     (if bodyKeywords materialName meshName \<or> largeGeometry g then BodyPaint
      else if chromeKeywords materialName meshName then Chrome
      else if rubberKeywords materialName meshName then Rubber
      else if glassKeywords materialName meshName then Glass
      else if lightKeywords materialName meshName then Light
      else if seatKeywords materialName meshName then Seat
      else if accentKeywords materialName meshName then AccentDetail
      else if carbonKeywords materialName meshName then CarbonFiber
      else Default)"

text \<open>
  The reading of the specification (section 4.3), to compare \<open>classify\<close> with: the
  ordered keyword sets, each keyword looked for in the material name and in the mesh
  name; the first category with a keyword in one of the names wins, and Default is the
  category when no keyword occurs.
\<close>

definition specKeywords :: "(MaterialCategory \<times> string list) list" where
  "specKeywords =
     [(BodyPaint, [''body'', ''fairing'', ''tank'', ''paint'']),
      (Chrome, [''metal'', ''chrome'', ''silver'', ''exhaust'']),
      (Rubber, [''rubber'', ''tire'', ''wheel'']),
      (Glass, [''glass'', ''window'', ''screen'', ''visor'']),
      (Light, [''light'', ''headlight'', ''taillight'', ''lamp'', ''led'']),
      (Seat, [''seat'', ''saddle'']),
      (AccentDetail, [''accent'', ''detail'', ''stripe'', ''logo'', ''badge'']),
      (CarbonFiber, [''carbon'', ''fiber''])]"

definition nameMatches :: "string list \<Rightarrow> string \<Rightarrow> string \<Rightarrow> bool" where
  "nameMatches keywords materialName meshName =
     list_ex (\<lambda>k. includes_str materialName k \<or> includes_str meshName k) keywords"

definition specAnyKeyword :: "string \<Rightarrow> string \<Rightarrow> bool" where
  "specAnyKeyword materialName meshName =
     list_ex (\<lambda>entry. nameMatches (snd entry) materialName meshName) specKeywords"

definition specCategory :: "string \<Rightarrow> string \<Rightarrow> MaterialCategory" where
  "specCategory materialName meshName =
     (case find (\<lambda>entry. nameMatches (snd entry) materialName meshName) specKeywords of
        Some entry \<Rightarrow> fst entry
      | None \<Rightarrow> Default)"

text \<open>
  The keywords of the specification that the source looks for in the mesh name but not in
  the material name.
\<close>

definition meshOnlyKeywords :: "string list" where
  "meshOnlyKeywords =
     [''paint'', ''silver'', ''exhaust'', ''wheel'', ''lamp'', ''led'', ''saddle'', ''badge'',
      ''fiber'']"

text \<open>
  \<open>color.setHex\<close> and \<open>emissive.setHex\<close>. The second raises a TypeError when the
  material has no \<open>emissive\<close>; an exception is its message.
\<close>

fun setHex :: "nat \<Rightarrow> color \<Rightarrow> color" where
  "setHex h (Color c) = Color h"
| "setHex h ColorStub = ColorStub"

definition setColorHex :: "nat \<Rightarrow> material \<Rightarrow> material" where
  "setColorHex h m = m\<lparr>color := map_option (setHex h) (color m)\<rparr>"

definition setEmissiveHex :: "nat \<Rightarrow> material \<Rightarrow> string + material" where
  "setEmissiveHex h m =
     (case emissive m of
        None \<Rightarrow> Inl ''TypeError''
      | Some e \<Rightarrow> Inr (m\<lparr>emissive := Some h\<rparr>))"

text \<open>The preset each branch writes (lines 858 to 965).\<close>

fun applyPreset :: "MaterialCategory \<Rightarrow> material \<Rightarrow> string + material" where
  "applyPreset BodyPaint m = setEmissiveHex 0x080808 (m\<lparr>metalness := 0.85, roughness := 0.15\<rparr>)"
| "applyPreset Chrome m =
     setEmissiveHex 0x0a0a0a ((setColorHex 0xe0e0e0 m)\<lparr>metalness := 0.95, roughness := 0.02\<rparr>)"
| "applyPreset Rubber m = Inr ((setColorHex 0x1a1a1a m)\<lparr>metalness := 0.0, roughness := 0.9\<rparr>)"
| "applyPreset Glass m =
     setEmissiveHex 0x001122
       ((setColorHex 0xd8e6f0 m)\<lparr>metalness := 0.2, roughness := 0.0, opacity := 0.3,
                                   transparent := True\<rparr>)"
| "applyPreset Light m =
     setEmissiveHex 0x666666 ((setColorHex 0xffffff m)\<lparr>metalness := 0.0, roughness := 0.1\<rparr>)"
| "applyPreset Seat m = Inr ((setColorHex 0x222222 m)\<lparr>metalness := 0.1, roughness := 0.8\<rparr>)"
| "applyPreset AccentDetail m =
     setEmissiveHex 0x222222 ((setColorHex 0xffffff m)\<lparr>metalness := 0.6, roughness := 0.2\<rparr>)"
| "applyPreset CarbonFiber m = Inr ((setColorHex 0x1d1e20 m)\<lparr>metalness := 0.4, roughness := 0.3\<rparr>)"
| "applyPreset Default m = Inr ((setColorHex 0x7d7d7d m)\<lparr>metalness := 0.5, roughness := 0.4\<rparr>)"

text \<open>\<open>Platform.OS === "web"\<close>, or any other platform.\<close>

datatype platform = Web | Native

text \<open>
  \<open>new MeshStandardMaterial({ color, roughness, metalness })\<close>, and the
  \<open>MeshBasicMaterial\<close> a \<open>Mesh\<close> gets when it is built without a material. The
  basic material has no \<open>emissive\<close>; its \<open>metalness\<close> and \<open>roughness\<close> fields do not
  exist either and stand as 0 here.
\<close>

definition meshStandardMaterial :: "nat \<Rightarrow> real \<Rightarrow> real \<Rightarrow> material" where
  "meshStandardMaterial c r m =
     \<lparr>mat_name = [], map_tex = None, normalMap = None, roughnessMap = None,
      metalnessMap = None, aoMap = None, emissiveMap = None, color = Some (Color c),
      emissive = Some 0, metalness = m, roughness = r, opacity = 1, transparent = False,
      side = 0, needsUpdate = False\<rparr>"

definition meshBasicMaterial :: material where
  "meshBasicMaterial =
     \<lparr>mat_name = [], map_tex = None, normalMap = None, roughnessMap = None,
      metalnessMap = None, aoMap = None, emissiveMap = None, color = Some (Color 0xffffff),
      emissive = None, metalness = 0, roughness = 0, opacity = 1, transparent = False,
      side = 0, needsUpdate = False\<rparr>"

text \<open>The material of the \<open>catch\<close> clause (lines 981 to 985).\<close>

definition fallbackMaterial :: material where
  "fallbackMaterial = meshStandardMaterial 0x7d7d7d 0.4 0.5"

text \<open>
  The body of the \<open>try\<close> of the traverse callback, from the cloned material on. First
  the clone is made ready (lines 806 to 832): on a platform that is not the web the six
  texture slots end up null, whether they were set or not; a material without a colour
  gets the stand-in; the material is double-sided.
\<close>

definition prepareClone :: "platform \<Rightarrow> material \<Rightarrow> material" where
  "prepareClone pf material0 =
     (let material1 =
            (if pf = Web then material0
             else material0\<lparr>map_tex := None, normalMap := None, roughnessMap := None,
                            metalnessMap := None, aoMap := None, emissiveMap := None\<rparr>);
          material2 =
            (if color material1 = None then material1\<lparr>color := Some ColorStub\<rparr> else material1)
      in material2\<lparr>needsUpdate := True, side := 2\<rparr>)"

text \<open>
  Then the names are lower-cased and the preset of the branch is written (lines 834 to
  969). \<open>toLowerCase\<close> is the function of the library.
\<close>

definition processMaterial ::
    "(string \<Rightarrow> string) \<Rightarrow> platform \<Rightarrow> string \<Rightarrow> geometry option \<Rightarrow> material \<Rightarrow>
     string + material" where
  "processMaterial toLowerCase pf childName g material0 =
     (let material3 = prepareClone pf material0;
          materialName = toLowerCase (mat_name material3);
          meshName = toLowerCase childName
      in case applyPreset (classify materialName meshName g) material3 of
           Inl e \<Rightarrow> Inl e
         | Inr material4 \<Rightarrow> Inr (material4\<lparr>needsUpdate := True\<rparr>))"

text \<open>\<open>child.material.clone()\<close>: an array has no \<open>clone\<close> method.\<close>

fun cloneMaterial :: "material_slot \<Rightarrow> string + material" where
  "cloneMaterial (Single m) = Inr m"
| "cloneMaterial (Multi ms) = Inl ''TypeError''"

text \<open>The traverse callback of the success callback (lines 799 to 988).\<close>

definition processChild ::
    "(string \<Rightarrow> string) \<Rightarrow> platform \<Rightarrow> object_props \<Rightarrow> object_props" where
  "processChild toLowerCase pf child =
     (case material child of
        None \<Rightarrow> child
      | Some slot \<Rightarrow>
          if isMesh child then
            (case (case cloneMaterial slot of
                     Inl e \<Rightarrow> Inl e
                   | Inr m \<Rightarrow>
                       processMaterial toLowerCase pf (obj_name child) (geometry child) m) of
               Inl e \<Rightarrow> child\<lparr>material := Some (Single fallbackMaterial)\<rparr>
             | Inr m \<Rightarrow> child\<lparr>material := Some (Single m), castShadow := True,
                              receiveShadow := True\<rparr>)
          else child)"

text \<open>\<open>Object3D.traverse\<close>: the callback on the object, then on its descendants.\<close>

fun traverse :: "(object_props \<Rightarrow> object_props) \<Rightarrow> object3d \<Rightarrow> object3d" where
  "traverse f (Object3D p cs) = Object3D (f p) (map (traverse f) cs)"

section \<open>Model loader\<close>

record gltf =
  gltf_scene :: "object3d option"

text \<open>
  What the parser of the library does with the asset: it hands a result to its success
  callback, reports an error to its failure callback, or throws.
\<close>

datatype parseOutcome = Parsed gltf | ParseFailed string | ParseThrew string

text \<open>
  The success callback that \<open>ReactNativeGLTFLoader\<close> wraps around \<open>onLoad\<close> (lines 66
  to 88): every material of every mesh, of an array too, loses its six textures.
\<close>

definition removeTextures :: "material \<Rightarrow> material" where
  "removeTextures m =
     m\<lparr>map_tex := None, normalMap := None, roughnessMap := None, metalnessMap := None,
       aoMap := None, emissiveMap := None, needsUpdate := True\<rparr>"

definition removeChildTextures :: "object_props \<Rightarrow> object_props" where
  "removeChildTextures child =
     (if isMesh child then
        (case material child of
           None \<Rightarrow> child
         | Some (Single m) \<Rightarrow> child\<lparr>material := Some (Single (removeTextures m))\<rparr>
         | Some (Multi ms) \<Rightarrow> child\<lparr>material := Some (Multi (map removeTextures ms))\<rparr>)
      else child)"

definition removeProblematicTextures :: "gltf \<Rightarrow> gltf" where
  "removeProblematicTextures g =
     (case gltf_scene g of
        None \<Rightarrow> g
      | Some sc \<Rightarrow> g\<lparr>gltf_scene := Some (traverse removeChildTextures sc)\<rparr>)"

text \<open>
  \<open>createReactNativeCompatibleLoader\<close> (lines 43 to 104): the loader of the library as
  it is on the web or when it is missing (then the result is null), the wrapping class
  otherwise.
\<close>

datatype loaderClass = GLTFLoader | ReactNativeGLTFLoader

definition createReactNativeCompatibleLoader :: "platform \<Rightarrow> bool \<Rightarrow> loaderClass option" where
  "createReactNativeCompatibleLoader pf available =
     (if pf = Web \<or> \<not> available then (if available then Some GLTFLoader else None)
      else Some ReactNativeGLTFLoader)"

text \<open>
  \<open>loader.load\<close>: what reaches the success callback (\<open>Inr\<close>) or the failure callback
  (\<open>Inl\<close>). When the parser throws, the wrapping class calls it a second time with the
  callbacks unwrapped (lines 91 to 98); it throws again, and \<open>load\<close> reports the
  exception as a failure.
\<close>

fun loaderLoad :: "loaderClass \<Rightarrow> parseOutcome \<Rightarrow> string + gltf" where
  "loaderLoad GLTFLoader (Parsed g) = Inr g"
| "loaderLoad ReactNativeGLTFLoader (Parsed g) = Inr (removeProblematicTextures g)"
| "loaderLoad cls (ParseFailed e) = Inl e"
| "loaderLoad cls (ParseThrew e) = Inl e"

section \<open>Fallback model\<close>

definition newMesh :: "geometry \<Rightarrow> material \<Rightarrow> object3d" where
  "newMesh g m =
     Object3D \<lparr>isMesh = True, obj_name = [], material = Some (Single m), geometry = Some g,
               castShadow = False, receiveShadow = False, rotation_x = 0, rotation_y = 0\<rparr> []"

definition newGroup :: "object3d list \<Rightarrow> object3d" where
  "newGroup cs =
     Object3D \<lparr>isMesh = False, obj_name = [], material = None, geometry = None,
               castShadow = False, receiveShadow = False, rotation_x = 0, rotation_y = 0\<rparr> cs"

fun set_rotation_y :: "real \<Rightarrow> object3d \<Rightarrow> object3d" where
  "set_rotation_y ry (Object3D p cs) = Object3D (p\<lparr>rotation_y := ry\<rparr>) cs"

text \<open>\<open>createFallbackModel\<close> (lines 1047 to 1094).\<close>

definition fallbackModel :: object3d where
  "fallbackModel =
     (let body = newMesh (BoxGeometry 2 0.4 0.7) meshBasicMaterial;
          seat = newMesh (BoxGeometry 1 0.2 0.5) (meshStandardMaterial 0x222222 1 0);
          frontWheel = newMesh (BoxGeometry 0.1 0.6 0.6) (meshStandardMaterial 0x111111 1 0);
          rearWheel = newMesh (BoxGeometry 0.1 0.6 0.6) (meshStandardMaterial 0x111111 1 0)
      in set_rotation_y (pi * 0.25) (newGroup [body, seat, frontWheel, rearWheel]))"

definition createFallbackModel :: "viewer \<Rightarrow> viewer" where
  "createFallbackModel s = s\<lparr>scene := scene s @ [fallbackModel], bikeModelRef := Some fallbackModel\<rparr>"

section \<open>Loading the model\<close>

text \<open>
  The stand-in that \<open>loadMotorcycleModel\<close> builds itself when the loader of the library
  is missing (lines 678 to 688) or the asset cannot be resolved (lines 738 to 749): a
  group of one box.
\<close>

definition boxBikeGroup :: "viewer \<Rightarrow> viewer" where
  "boxBikeGroup s =
     (let bikeGroup = newGroup [newMesh (BoxGeometry 2 0.8 4) meshBasicMaterial]
      in s\<lparr>bikeModelRef := Some bikeGroup, scene := scene s @ [bikeGroup], modelLoaded := True\<rparr>)"

text \<open>
  The success callback of \<open>loader.load\<close> in \<open>loadMotorcycleModel\<close> (lines 793 to
  1022). A result without a scene makes \<open>model.traverse\<close> raise a TypeError, which the
  \<open>catch\<close> of the callback handles (lines 1014 to 1021).
\<close>

definition onModelLoaded ::
    "(string \<Rightarrow> string) \<Rightarrow> platform \<Rightarrow> gltf \<Rightarrow> viewer \<Rightarrow> viewer" where
  "onModelLoaded toLowerCase pf g s =
     (case gltf_scene g of
        None \<Rightarrow>
          createFallbackModel
            (s\<lparr>error := Some (''Error processing model: '' @ ''TypeError''), loading := False\<rparr>)
      | Some model \<Rightarrow>
          (let model1 = traverse (processChild toLowerCase pf) model;
               model2 = set_rotation_y (pi * 0.15) model1
           in s\<lparr>scene := scene s @ [model2], bikeModelRef := Some model2,
                modelLoaded := True, loading := False\<rparr>))"

text \<open>The failure callback of \<open>loader.load\<close> in \<open>loadMotorcycleModel\<close> (lines 1030 to 1037).\<close>

definition onModelError :: "string \<Rightarrow> viewer \<Rightarrow> viewer" where
  "onModelError e s =
     createFallbackModel (s\<lparr>error := Some (''Error loading model: '' @ e), loading := False\<rparr>)"

text \<open>
  \<open>loadMotorcycleModel\<close> (lines 673 to 1044). \<open>available\<close> says that the loader of the
  library was found, \<open>resolved\<close> is the URI the asset resolved to (none when the
  resolution raised), \<open>outcome\<close> is what the parser does, \<open>toLowerCase\<close> is the
  function of the library. The outer \<open>catch\<close> (lines 1039 to 1043) is reached when the
  loader class cannot be instantiated.
\<close>

definition loadMotorcycleModel ::
    "(string \<Rightarrow> string) \<Rightarrow> platform \<Rightarrow> bool \<Rightarrow> string option \<Rightarrow> parseOutcome \<Rightarrow> viewer \<Rightarrow>
     viewer" where
  "loadMotorcycleModel toLowerCase pf available resolved outcome s =
     (if \<not> available then boxBikeGroup s
      else if resolved = None \<or> resolved = Some [] then boxBikeGroup s
      else (case createReactNativeCompatibleLoader pf available of
              None \<Rightarrow> s\<lparr>error := Some (''Error in model load: '' @ ''TypeError''), loading := False\<rparr>
            | Some cls \<Rightarrow>
                (case loaderLoad cls outcome of
                   Inr g \<Rightarrow> onModelLoaded toLowerCase pf g s
                 | Inl e \<Rightarrow> onModelError e s)))"

text \<open>
  The traverse callback of \<open>onContextCreate\<close> (lines 584 to 603): shadows, and a colour
  for every material that has none.
\<close>

definition prepareMaterial :: "material \<Rightarrow> material" where
  "prepareMaterial m =
     (if color m = None then m\<lparr>color := Some ColorStub\<rparr> else m)\<lparr>needsUpdate := True\<rparr>"

definition prepareChild :: "object_props \<Rightarrow> object_props" where
  "prepareChild child =
     (if isMesh child then
        (case material child of
           None \<Rightarrow> child
         | Some (Single m) \<Rightarrow>
             child\<lparr>castShadow := True, receiveShadow := True,
                   material := Some (Single (prepareMaterial m))\<rparr>
         | Some (Multi ms) \<Rightarrow>
             child\<lparr>castShadow := True, receiveShadow := True,
                   material := Some (Multi (map prepareMaterial ms))\<rparr>)
      else child)"

text \<open>
  The inner \<open>try\<close> of \<open>onContextCreate\<close> (lines 534 to 639): \<open>Inl\<close> is the message of
  the exception it ends with. \<open>assetLoaded\<close> says that \<open>Asset.loadAsync\<close> resolved. A
  result without a scene is taken as the model itself, which has no \<open>traverse\<close>.
\<close>

definition loadModel ::
    "platform \<Rightarrow> bool \<Rightarrow> bool \<Rightarrow> parseOutcome \<Rightarrow> viewer \<Rightarrow> string + viewer" where
  "loadModel pf available assetLoaded outcome s =
     (case createReactNativeCompatibleLoader pf available of
        None \<Rightarrow> Inl ''GLTFLoader not available''
      | Some cls \<Rightarrow>
          if assetLoaded then
            (case loaderLoad cls outcome of
               Inl e \<Rightarrow> Inl e
             | Inr modelData \<Rightarrow>
                 (case gltf_scene modelData of
                    None \<Rightarrow> Inl ''TypeError''
                  | Some model \<Rightarrow>
                      (let model1 = traverse prepareChild model;
                           model2 = set_rotation (pi * 0.05) (pi * 0.25) model1
                       in Inr (s\<lparr>scene := scene s @ [model2], bikeModelRef := Some model2,
                                  modelLoaded := True, loading := False\<rparr>))))
          else Inl ''Asset.loadAsync failed'')"

text \<open>The \<open>catch\<close> of the inner \<open>try\<close> (lines 640 to 649).\<close>

definition onModelLoadFailed :: "string \<Rightarrow> viewer \<Rightarrow> viewer" where
  "onModelLoadFailed msg s =
     createFallbackModel
       (s\<lparr>error := Some (''Failed to load 3D model: '' @ msg), loading := False\<rparr>)"

text \<open>The inner \<open>try\<close> with its \<open>catch\<close> (lines 534 to 649).\<close>

definition loadModelOrFallback ::
    "platform \<Rightarrow> bool \<Rightarrow> bool \<Rightarrow> parseOutcome \<Rightarrow> viewer \<Rightarrow> viewer" where
  "loadModelOrFallback pf available assetLoaded outcome s =
     (case loadModel pf available assetLoaded outcome s of
        Inr s' \<Rightarrow> s'
      | Inl msg \<Rightarrow> onModelLoadFailed msg s)"

section \<open>Render loop\<close>

fun add_rotation_y :: "real \<Rightarrow> object3d \<Rightarrow> object3d" where
  "add_rotation_y d (Object3D p cs) = Object3D (p\<lparr>rotation_y := rotation_y p + d\<rparr>) cs"

text \<open>
  \<open>render\<close> (lines 652 to 664): it requests the next frame first, whatever the state,
  then turns the model when \<open>autoRotate\<close> is set and a model is there, then draws.
\<close>

definition render :: "bool \<Rightarrow> viewer \<Rightarrow> viewer" where
  "render autoRotate s =
     (let s1 = s\<lparr>frameRequested := True, framesRendered := framesRendered s + 1\<rparr>
      in if autoRotate
         then s1\<lparr>bikeModelRef := map_option (add_rotation_y 0.005) (bikeModelRef s1)\<rparr>
         else s1)"

text \<open>
  \<open>onContextCreate\<close> (lines 498 to 671). \<open>glOk\<close> says that the renderer was built,
  \<open>assetFound\<close> that the lookup of the asset (lines 525 to 531, outside the inner
  \<open>try\<close>) did not raise; if one of them fails, the outer \<open>catch\<close> reports the error,
  no model is added and nothing is drawn. The lights that \<open>setupLighting\<close> adds to the
  new scene are six objects without a material.
\<close>

definition setupLighting :: "viewer \<Rightarrow> viewer" where
  "setupLighting s = s\<lparr>scene := scene s @ replicate 6 (newGroup [])\<rparr>"

definition onContextCreate ::
    "platform \<Rightarrow> bool \<Rightarrow> bool \<Rightarrow> bool \<Rightarrow> bool \<Rightarrow> parseOutcome \<Rightarrow> bool \<Rightarrow> viewer \<Rightarrow>
     viewer" where
  "onContextCreate pf glOk assetFound available assetLoaded outcome autoRotate s =
     (if glOk then
        (let s1 = setupLighting (setupCamera (s\<lparr>scene := []\<rparr>))
         in if assetFound then
              render autoRotate (loadModelOrFallback pf available assetLoaded outcome s1)
            else s1\<lparr>error := Some (''GL setup error: '' @ ''Unknown error''),
                    loading := False\<rparr>)
      else s\<lparr>error := Some (''GL setup error: '' @ ''Unknown error''), loading := False\<rparr>)"

text \<open>
  What can happen to a mounted viewer. An animation frame runs \<open>render\<close> if a request
  is pending. The component registers no cleanup (its one effect, lines 339 to 343,
  returns nothing, and no handler cancels a frame request), so unmounting runs no code of
  the component: it only marks the viewer as unmounted.
\<close>

datatype event =
  TouchGrant | TouchMove "touch list" gestureState | TouchRelease | AnimationFrame | Unmount

fun step :: "bool \<Rightarrow> event \<Rightarrow> viewer \<Rightarrow> viewer" where
  "step autoRotate TouchGrant s = onPanResponderGrant s"
| "step autoRotate (TouchMove touches g) s = onPanResponderMove touches g s"
| "step autoRotate TouchRelease s = onPanResponderRelease s"
| "step autoRotate AnimationFrame s =
     (if frameRequested s then render autoRotate (s\<lparr>frameRequested := False\<rparr>) else s)"
| "step autoRotate Unmount s = s\<lparr>mounted := False\<rparr>"

fun run :: "bool \<Rightarrow> event list \<Rightarrow> viewer \<Rightarrow> viewer" where
  "run autoRotate [] s = s"
| "run autoRotate (e # es) s = run autoRotate es (step autoRotate e s)"

text \<open>All materials of the meshes of a scene graph, and a material without textures.\<close>

fun slotMaterials :: "material_slot \<Rightarrow> material list" where
  "slotMaterials (Single m) = [m]"
| "slotMaterials (Multi ms) = ms"

definition ownMaterials :: "object_props \<Rightarrow> material list" where
  "ownMaterials p =
     (if isMesh p then (case material p of None \<Rightarrow> [] | Some slot \<Rightarrow> slotMaterials slot)
      else [])"

fun meshMaterials :: "object3d \<Rightarrow> material list" where
  "meshMaterials (Object3D p cs) = ownMaterials p @ concat (map meshMaterials cs)"

definition noTextures :: "material \<Rightarrow> bool" where
  "noTextures m =
     (map_tex m = None \<and> normalMap m = None \<and> roughnessMap m = None \<and>
      metalnessMap m = None \<and> aoMap m = None \<and> emissiveMap m = None)"

text \<open>A mesh built on a box.\<close>

fun isBoxMesh :: "object3d \<Rightarrow> bool" where
  "isBoxMesh (Object3D p cs) =
     (isMesh p \<and> (case geometry p of Some (BoxGeometry w h d) \<Rightarrow> True | _ \<Rightarrow> False))"

text \<open>
  The state \<open>s'\<close> shows the fallback model on top of the scene of \<open>s\<close>: the group has
  been added to the scene, the model reference is that group, and the viewer is no longer
  loading.
\<close>

definition showsFallback :: "viewer \<Rightarrow> viewer \<Rightarrow> bool" where
  "showsFallback s s' =
     (scene s' = scene s @ [fallbackModel] \<and> bikeModelRef s' = Some fallbackModel \<and>
      \<not> loading s')"

text \<open>
  A viewer whose render loop has started: \<open>onContextCreate\<close> on a device, the asset
  malformed, so that the fallback model is shown.
\<close>

definition startedViewer :: viewer where
  "startedViewer =
     onContextCreate Native True True True True (ParseFailed ''malformed'') True initialViewer"

text \<open>
  A parsed scene for concrete runs: a group of two meshes with textures on their
  materials, the second with an array of two materials.
\<close>

definition texturedMaterial :: material where
  "texturedMaterial = (meshStandardMaterial 0xffffff 1 0)\<lparr>map_tex := Some 1, normalMap := Some 2\<rparr>"

definition texturedScene :: object3d where
  "texturedScene =
     newGroup
       [newMesh (BufferGeometry (Some 200)) texturedMaterial,
        Object3D \<lparr>isMesh = True, obj_name = [],
                  material = Some (Multi [texturedMaterial, texturedMaterial]),
                  geometry = Some (BufferGeometry (Some 200)),
                  castShadow = False, receiveShadow = False,
                  rotation_x = 0, rotation_y = 0\<rparr> []]"

text \<open>
  Inputs for concrete runs: a touch at a point, and a single-touch move event whose
  gesture state carries the given cumulative displacement.
\<close>

definition touchAt :: "real \<Rightarrow> real \<Rightarrow> touch" where
  "touchAt x y = \<lparr>pageX = x, pageY = y\<rparr>"

definition drag :: "real \<Rightarrow> real \<Rightarrow> touch list \<times> gestureState" where
  "drag x y = ([touchAt x y], \<lparr>dx = x, dy = y\<rparr>)"

section \<open>Properties\<close>

lemma moves_append: "moves (es @ fs) s = moves fs (moves es s)"
  by (induction es arbitrary: s) simp_all

lemma rotateModel_pitch:
  "- pi / 3 \<le> rotationRef_x (rotateModel g s) \<and> rotationRef_x (rotateModel g s) \<le> pi / 3"
proof -
  have "- pi / 3 \<le> pi / 3" using pi_gt_zero by simp
  then show ?thesis
    by (simp add: rotateModel_def Let_def max_def min_def)
qed

lemma rotateModel_applied:
  "bikeModelRef s = Some m \<Longrightarrow>
   map_option (rotation_x \<circ> props) (bikeModelRef (rotateModel g s)) = Some (rotationRef_x (rotateModel g s)) \<and>
   map_option (rotation_y \<circ> props) (bikeModelRef (rotateModel g s)) = Some (rotationRef_y (rotateModel g s))"
  by (cases m) (simp add: rotateModel_def Let_def)

lemma move_keeps_model:
  "bikeModelRef s \<noteq> None \<Longrightarrow> bikeModelRef (onPanResponderMove ts g s) \<noteq> None"
  by (auto simp: onPanResponderMove_def rotateModel_def pinchZoom_def Let_def)

lemma moves_keeps_model:
  "bikeModelRef s \<noteq> None \<Longrightarrow> bikeModelRef (moves es s) \<noteq> None"
proof (induction es arbitrary: s)
  case Nil
  then show ?case by simp
next
  case (Cons e es)
  have "bikeModelRef (onPanResponderMove (fst e) (snd e) s) \<noteq> None"
    using Cons.prems by (rule move_keeps_model)
  then show ?case using Cons.IH by simp
qed

lemma grant_yaw:
  "bikeModelRef s = Some m \<Longrightarrow>
   rotationRef_y (onPanResponderGrant s) = rotation_y (props m) \<and>
   rotationRef_x (onPanResponderGrant s) = rotation_x (props m) \<and>
   bikeModelRef (onPanResponderGrant s) = Some m"
  by (simp add: onPanResponderGrant_def Let_def)

lemma single_move:
  "bikeModelRef s \<noteq> None \<Longrightarrow> single_touch e \<Longrightarrow>
   onPanResponderMove (fst e) (snd e) s = rotateModel (snd e) s"
  by (simp add: onPanResponderMove_def single_touch_def)

lemma rotateModel_yaw:
  "rotationRef_y (rotateModel g s) = rotationRef_y s + 0.0004 * dx g"
  by (simp add: rotateModel_def Let_def)

lemma rotateModel_keeps_model:
  "bikeModelRef s \<noteq> None \<Longrightarrow> bikeModelRef (rotateModel g s) \<noteq> None"
  by (auto simp: rotateModel_def Let_def)

lemma moves_yaw:
  "bikeModelRef s \<noteq> None \<Longrightarrow> list_all single_touch evs \<Longrightarrow>
   rotationRef_y (moves evs s) = rotationRef_y s + 0.0004 * sum_list (map (dx \<circ> snd) evs)"
proof (induction evs arbitrary: s)
  case Nil
  then show ?case by simp
next
  case (Cons e es)
  have one: "single_touch e" using Cons.prems(2) by simp
  have step: "onPanResponderMove (fst e) (snd e) s = rotateModel (snd e) s"
    using Cons.prems(1) one by (rule single_move)
  have keep: "bikeModelRef (rotateModel (snd e) s) \<noteq> None"
    using Cons.prems(1) by (rule rotateModel_keeps_model)
  show ?case
    using Cons.IH [OF keep] Cons.prems(2) by (simp add: step rotateModel_yaw algebra_simps)
qed

lemma moves_model_yaw:
  "bikeModelRef s \<noteq> None \<Longrightarrow> list_all single_touch evs \<Longrightarrow>
   map_option (rotation_y \<circ> props) (bikeModelRef s) = Some (rotationRef_y s) \<Longrightarrow>
   map_option (rotation_y \<circ> props) (bikeModelRef (moves evs s)) = Some (rotationRef_y (moves evs s))"
proof (induction evs arbitrary: s)
  case Nil
  then show ?case by simp
next
  case (Cons e es)
  have one: "single_touch e" using Cons.prems(2) by simp
  have step: "onPanResponderMove (fst e) (snd e) s = rotateModel (snd e) s"
    using Cons.prems(1) one by (rule single_move)
  have keep: "bikeModelRef (rotateModel (snd e) s) \<noteq> None"
    using Cons.prems(1) by (rule rotateModel_keeps_model)
  obtain m where m: "bikeModelRef s = Some m" using Cons.prems(1) by auto
  have inv: "map_option (rotation_y \<circ> props) (bikeModelRef (rotateModel (snd e) s)) =
      Some (rotationRef_y (rotateModel (snd e) s))"
    using rotateModel_applied [OF m] by simp
  show ?case
    using Cons.IH [OF keep _ inv] Cons.prems(2) by (simp add: step)
qed

text \<open>
  C3. In any state with a model, after each event of any sequence of single-touch move
  events, whatever their displacements, the stored pitch \<open>rotationRef.x\<close> lies between
  \<open>-\<pi>/3\<close> and \<open>\<pi>/3\<close>, and the model's \<open>rotation.x\<close> is that value.
\<close>

theorem pitch_clamped_after_each_move:
  assumes "bikeModelRef s \<noteq> None" and "list_all single_touch evs"
    and "0 < n" and "n \<le> length evs"
  shows "- pi / 3 \<le> rotationRef_x (moves (take n evs) s) \<and>
         rotationRef_x (moves (take n evs) s) \<le> pi / 3 \<and>
         map_option (rotation_x \<circ> props) (bikeModelRef (moves (take n evs) s)) =
           Some (rotationRef_x (moves (take n evs) s))"
proof -
  from assms(3,4) have ne: "take n evs \<noteq> []" by auto
  then obtain es e where split: "take n evs = es @ [e]"
    by (metis rev_exhaust)
  have "e \<in> set (take n evs)" using split by simp
  then have "e \<in> set evs" by (rule in_set_takeD)
  with assms(2) have one: "single_touch e"
    by (simp add: list_all_iff)
  define s1 where "s1 = moves es s"
  have m1: "bikeModelRef s1 \<noteq> None"
    unfolding s1_def using assms(1) by (rule moves_keeps_model)
  then obtain m where m: "bikeModelRef s1 = Some m" by auto
  have last: "moves (take n evs) s = rotateModel (snd e) s1"
    using single_move [OF m1 one] by (simp add: split moves_append s1_def)
  show ?thesis
    unfolding last using rotateModel_pitch [of "snd e" s1] rotateModel_applied [OF m, of "snd e"]
    by simp
qed

lemma fallback_has_model: "bikeModelRef (createFallbackModel initialViewer) \<noteq> None"
  by (simp add: createFallbackModel_def)

theorem pitch_clamped_after_each_move_witness:
  "- pi / 3 \<le> rotationRef_x (moves (take 2 [drag 0 100000, drag 0 (- 900000)]) (createFallbackModel initialViewer)) \<and>
   rotationRef_x (moves (take 2 [drag 0 100000, drag 0 (- 900000)]) (createFallbackModel initialViewer)) \<le> pi / 3 \<and>
   map_option (rotation_x \<circ> props)
     (bikeModelRef (moves (take 2 [drag 0 100000, drag 0 (- 900000)]) (createFallbackModel initialViewer))) =
   Some (rotationRef_x (moves (take 2 [drag 0 100000, drag 0 (- 900000)]) (createFallbackModel initialViewer)))"
proof -
  have a: "list_all single_touch [drag 0 100000, drag 0 (- 900000)]"
    by (simp add: single_touch_def drag_def)
  show ?thesis
    using pitch_clamped_after_each_move [OF fallback_has_model a, of 2] by simp
qed

lemma rotateModel_pitch_value:
  "rotationRef_x (rotateModel g s) =
     max (- pi / 3) (min (pi / 3) (rotationRef_x s + (0.0004 - 0.0003) * dy g))"
  by (simp add: rotateModel_def Let_def)

text \<open>
  C10, as the code has it. Each single-touch move event adds 0.0004 times the cumulative
  horizontal displacement of the gesture to the stored yaw, and (0.0004 - 0.0003) times
  the cumulative vertical displacement to the stored pitch, which it then clamps to the
  interval from \<open>-\<pi>/3\<close> to \<open>\<pi>/3\<close>. So after the grant and move events with
  cumulative displacements \<open>dx_1, ..., dx_n\<close> the stored yaw, and the model's, is the
  model's yaw at the grant plus 0.0004 times the sum of all of them; it differs from the
  yaw at the grant plus 0.0004 times \<open>dx_n\<close> as soon as the earlier displacements do not
  sum to zero.
\<close>

theorem yaw_adds_every_cumulative_displacement:
  assumes "bikeModelRef s = Some m" and "list_all single_touch evs"
  shows "rotationRef_y (moves evs (onPanResponderGrant s)) =
           rotation_y (props m) + 0.0004 * sum_list (map (dx \<circ> snd) evs) \<and>
         map_option (rotation_y \<circ> props) (bikeModelRef (moves evs (onPanResponderGrant s))) =
           Some (rotation_y (props m) + 0.0004 * sum_list (map (dx \<circ> snd) evs)) \<and>
         (evs \<noteq> [] \<and> sum_list (map (dx \<circ> snd) (butlast evs)) \<noteq> 0 \<longrightarrow>
            rotationRef_y (moves evs (onPanResponderGrant s)) \<noteq>
              rotation_y (props m) + 0.0004 * dx (snd (last evs))) \<and>
         (bikeModelRef t \<noteq> None \<and> length touches = 1 \<longrightarrow>
            rotationRef_y (onPanResponderMove touches g t) = rotationRef_y t + 0.0004 * dx g \<and>
            rotationRef_x (onPanResponderMove touches g t) =
              max (- pi / 3) (min (pi / 3) (rotationRef_x t + (0.0004 - 0.0003) * dy g)))"
proof -
  let ?g = "onPanResponderGrant s"
  have g: "rotationRef_y ?g = rotation_y (props m)" "bikeModelRef ?g = Some m"
    using grant_yaw [OF assms(1)] by simp_all
  have ne: "bikeModelRef ?g \<noteq> None" using g(2) by simp
  have y: "rotationRef_y (moves evs ?g) =
      rotation_y (props m) + 0.0004 * sum_list (map (dx \<circ> snd) evs)"
    using moves_yaw [OF ne assms(2)] g(1) by simp
  have inv: "map_option (rotation_y \<circ> props) (bikeModelRef ?g) = Some (rotationRef_y ?g)"
    using g by simp
  have my: "map_option (rotation_y \<circ> props) (bikeModelRef (moves evs ?g)) =
      Some (rotationRef_y (moves evs ?g))"
    using ne assms(2) inv by (rule moves_model_yaw)
  have neq: "rotationRef_y (moves evs ?g) \<noteq> rotation_y (props m) + 0.0004 * dx (snd (last evs))"
    if "evs \<noteq> []" and nz: "sum_list (map (dx \<circ> snd) (butlast evs)) \<noteq> 0"
  proof -
    have "evs = butlast evs @ [last evs]" using that(1) by simp
    then have "sum_list (map (dx \<circ> snd) evs) =
        sum_list (map (dx \<circ> snd) (butlast evs)) + dx (snd (last evs))"
      by (metis (no_types, lifting) comp_apply list.simps(8,9) map_append sum_list.Cons sum_list.Nil sum_list_append add.right_neutral)
    with nz show ?thesis unfolding y by simp
  qed
  have one: "rotationRef_y (onPanResponderMove touches g t) = rotationRef_y t + 0.0004 * dx g \<and>
      rotationRef_x (onPanResponderMove touches g t) =
        max (- pi / 3) (min (pi / 3) (rotationRef_x t + (0.0004 - 0.0003) * dy g))"
    if "bikeModelRef t \<noteq> None" "length touches = 1"
  proof -
    have "onPanResponderMove touches g t = rotateModel g t"
      using that by (simp add: onPanResponderMove_def)
    then show ?thesis
      using rotateModel_yaw [of g t] rotateModel_pitch_value [of g t] by simp
  qed
  show ?thesis using y my neq one by simp
qed

lemma fallback_model_is: "bikeModelRef (createFallbackModel initialViewer) = Some fallbackModel"
  by (simp add: createFallbackModel_def)

lemma fallbackModel_yaw: "rotation_y (props fallbackModel) = pi * 0.25"
  by (simp add: fallbackModel_def newGroup_def Let_def)

lemma fallbackModel_pitch: "rotation_x (props fallbackModel) = 0"
  by (simp add: fallbackModel_def newGroup_def Let_def)

theorem yaw_adds_every_cumulative_displacement_witness:
  "rotationRef_y (moves [drag 50 0, drag 100 0] (onPanResponderGrant (createFallbackModel initialViewer))) =
     rotation_y (props fallbackModel) + 0.0004 * sum_list (map (dx \<circ> snd) [drag 50 0, drag 100 0]) \<and>
   map_option (rotation_y \<circ> props)
     (bikeModelRef (moves [drag 50 0, drag 100 0] (onPanResponderGrant (createFallbackModel initialViewer)))) =
     Some (rotation_y (props fallbackModel) + 0.0004 * sum_list (map (dx \<circ> snd) [drag 50 0, drag 100 0])) \<and>
   rotationRef_y (moves [drag 50 0, drag 100 0] (onPanResponderGrant (createFallbackModel initialViewer))) \<noteq>
     rotation_y (props fallbackModel) + 0.0004 * dx (snd (last [drag 50 0, drag 100 0])) \<and>
   rotationRef_y (onPanResponderMove [touchAt 0 1000] \<lparr>dx = 0, dy = 1000\<rparr>
       (createFallbackModel initialViewer)) =
     rotationRef_y (createFallbackModel initialViewer) + 0.0004 * dx \<lparr>dx = 0, dy = 1000\<rparr> \<and>
   rotationRef_x (onPanResponderMove [touchAt 0 1000] \<lparr>dx = 0, dy = 1000\<rparr>
       (createFallbackModel initialViewer)) =
     max (- pi / 3) (min (pi / 3) (rotationRef_x (createFallbackModel initialViewer) +
       (0.0004 - 0.0003) * dy \<lparr>dx = 0, dy = 1000\<rparr>))"
proof -
  have a: "list_all single_touch [drag 50 0, drag 100 0]"
    by (simp add: single_touch_def drag_def)
  have b: "[drag 50 0, drag 100 0] \<noteq> [] \<and>
      sum_list (map (dx \<circ> snd) (butlast [drag 50 0, drag 100 0])) \<noteq> 0"
    by (simp add: drag_def)
  have c: "bikeModelRef (createFallbackModel initialViewer) \<noteq> None \<and>
      length [touchAt 0 1000] = 1"
    by (simp add: createFallbackModel_def)
  show ?thesis
    using yaw_adds_every_cumulative_displacement [OF fallback_model_is a,
        of "createFallbackModel initialViewer" "[touchAt 0 1000]" "\<lparr>dx = 0, dy = 1000\<rparr>"] b c
    by blast
qed

text \<open>
  C10 as stated fails for the pitch: on the fallback model (pitch 0) one move event with a
  vertical displacement of 1000 stores the pitch 1000 * 0.0001, not 1000 * 0.0004; with a
  vertical displacement of 100000 it stores \<open>\<pi>/3\<close>.
\<close>

theorem pitch_gets_smaller_sensitivity_and_clamp:
  "rotationRef_x (moves [drag 0 1000] (onPanResponderGrant (createFallbackModel initialViewer))) =
     1000 * 0.0001 \<and>
   rotation_x (props fallbackModel) + 0.0004 * 1000 \<noteq> (1000 * 0.0001 :: real) \<and>
   rotationRef_x (moves [drag 0 100000] (onPanResponderGrant (createFallbackModel initialViewer))) =
     pi / 3"
proof -
  let ?g = "onPanResponderGrant (createFallbackModel initialViewer)"
  have g: "rotationRef_x ?g = 0" "bikeModelRef ?g \<noteq> None"
    using grant_yaw [OF fallback_model_is] fallbackModel_pitch by simp_all
  have m: "moves [drag 0 d] ?g = rotateModel \<lparr>dx = 0, dy = d\<rparr> ?g" for d
    using g(2) by (simp add: drag_def onPanResponderMove_def)
  have p3: "2 \<le> pi" by (rule pi_ge_two)
  have a0: "rotationRef_x (rotateModel \<lparr>dx = 0, dy = 1000\<rparr> ?g) = 1000 * 0.0001"
    using p3 by (simp add: rotateModel_pitch_value g(1) max_def min_def)
  have a: "rotationRef_x (moves [drag 0 1000] ?g) = 1000 * 0.0001"
    unfolding m by (rule a0)
  have p4: "pi < 4" using pi_less_4 by simp
  have b0: "rotationRef_x (rotateModel \<lparr>dx = 0, dy = 100000\<rparr> ?g) = pi / 3"
    using p3 p4 by (simp add: rotateModel_pitch_value g(1) max_def min_def)
  have b: "rotationRef_x (moves [drag 0 100000] ?g) = pi / 3"
    unfolding m by (rule b0)
  show ?thesis using a b by (simp add: fallbackModel_pitch)
qed

text \<open>
  C5, at a drag the claim covers: the gesture starts on the fallback model (yaw
  \<open>\<pi>/4\<close>) and delivers two move events, with cumulative displacements (50, 0) and
  (100, 0). The model's yaw ends at the yaw of the gesture start plus 150 * 0.0004, not
  plus 100 * 0.0004.
\<close>

theorem drag_in_two_events_overshoots:
  "map_option (rotation_y \<circ> props) (bikeModelRef (onPanResponderGrant (createFallbackModel initialViewer))) =
     Some (pi * 0.25) \<and>
   map_option (rotation_y \<circ> props)
     (bikeModelRef (moves [drag 50 0, drag 100 0] (onPanResponderGrant (createFallbackModel initialViewer)))) =
     Some (pi * 0.25 + 150 * 0.0004) \<and>
   pi * 0.25 + 150 * 0.0004 \<noteq> pi * 0.25 + 100 * 0.0004"
proof -
  let ?g = "onPanResponderGrant (createFallbackModel initialViewer)"
  have g: "rotationRef_y ?g = pi * 0.25" "bikeModelRef ?g = Some fallbackModel"
    using grant_yaw [OF fallback_model_is] fallbackModel_yaw by simp_all
  have ne: "bikeModelRef ?g \<noteq> None" using g(2) by simp
  have a: "list_all single_touch [drag 50 0, drag 100 0]"
    by (simp add: single_touch_def drag_def)
  have y: "rotationRef_y (moves [drag 50 0, drag 100 0] ?g) = pi * 0.25 + 150 * 0.0004"
    using moves_yaw [OF ne a] g(1) by (simp add: drag_def)
  have inv: "map_option (rotation_y \<circ> props) (bikeModelRef ?g) = Some (rotationRef_y ?g)"
    using g fallbackModel_yaw by simp
  have my: "map_option (rotation_y \<circ> props) (bikeModelRef (moves [drag 50 0, drag 100 0] ?g)) =
      Some (rotationRef_y (moves [drag 50 0, drag 100 0] ?g))"
    using ne a inv by (rule moves_model_yaw)
  show ?thesis using g fallbackModel_yaw my y by simp
qed

text \<open>
  A drag that delivers one move event, with displacement (100, 0), does add 100 * 0.0004.
\<close>

lemma single_drag_yaw:
  assumes "bikeModelRef s = Some m"
  shows "map_option (rotation_y \<circ> props) (bikeModelRef (moves [drag 100 0] (onPanResponderGrant s))) =
           Some (rotation_y (props m) + 100 * 0.0004)"
proof -
  let ?g = "onPanResponderGrant s"
  have g: "rotationRef_y ?g = rotation_y (props m)" "bikeModelRef ?g = Some m"
    using grant_yaw [OF assms] by simp_all
  have ne: "bikeModelRef ?g \<noteq> None" using g(2) by simp
  have a: "list_all single_touch [drag 100 0]"
    by (simp add: single_touch_def drag_def)
  have y: "rotationRef_y (moves [drag 100 0] ?g) = rotation_y (props m) + 100 * 0.0004"
    using moves_yaw [OF ne a] g(1) by (simp add: drag_def)
  have inv: "map_option (rotation_y \<circ> props) (bikeModelRef ?g) = Some (rotationRef_y ?g)"
    using g by simp
  have my: "map_option (rotation_y \<circ> props) (bikeModelRef (moves [drag 100 0] ?g)) =
      Some (rotationRef_y (moves [drag 100 0] ?g))"
    using ne a inv by (rule moves_model_yaw)
  show ?thesis using my y by simp
qed

lemma pinchDistance_same: "pinchDistance t t = 0"
  by (simp add: pinchDistance_def)

text \<open>
  C4, at the first pinch event of a gesture with both touches at the same point: the
  distance 0 is recorded as the initial distance, the zoom factor is \<open>0 / 0\<close>, and the
  value stored in \<open>zoomRef\<close> is NaN, which is not in the interval from 0.5 to 12.
\<close>

theorem pinch_at_one_point_stores_nan:
  "zoomRef (onPanResponderMove [touchAt 10 10, touchAt 10 10] \<lparr>dx = 0, dy = 0\<rparr>
     (setupCamera initialViewer)) = NaN \<and>
   \<not> in_interval 0.5 12 (zoomRef (onPanResponderMove [touchAt 10 10, touchAt 10 10] \<lparr>dx = 0, dy = 0\<rparr>
     (setupCamera initialViewer)))"
  by (simp add: onPanResponderMove_def setupCamera_def initialViewer_def pinchZoom_def
      pinchDistance_same Let_def)

text \<open>
  When the first pinch event of a gesture has its touches apart and the zoom factor
  before it is in the interval, the stored zoom factor stays in the interval.
\<close>

lemma clamp_zoom_in_interval:
  "z \<noteq> NaN \<Longrightarrow> in_interval 0.5 12 (js_max (Fin 0.5) (js_min (Fin 12) z))"
  by (cases z) (simp_all add: max_def min_def)

lemma pinchZoom_clamped:
  assumes "initialDistance (pinchDataRef s) = None \<or> initialDistance (pinchDataRef s) = Some 0"
    and "in_interval 0.5 12 (zoomRef s)"
    and "pinchDistance t1 t2 \<noteq> 0"
  shows "in_interval 0.5 12 (zoomRef (pinchZoom t1 t2 s))"
proof -
  obtain z where z: "zoomRef s = Fin z" "0.5 \<le> z" "z \<le> 12"
    using assms(2) by (cases "zoomRef s") simp_all
  have "zoomRef (pinchZoom t1 t2 s) = js_max (Fin 0.5) (js_min (Fin 12) (Fin z))"
    using assms(1,3) z(1) by (auto simp: pinchZoom_def Let_def)
  then show ?thesis using clamp_zoom_in_interval [of "Fin z"] by simp
qed

text \<open>
  C8, at the first pinch event after the camera setup (touches at (0, 0) and (3, 4)):
  the setup puts the camera at height 0.4 looking at height -0.2; the pinch event leaves
  the zoom factor at 2 and puts the camera at height 0.75 looking at height -0.3.
\<close>

theorem first_pinch_moves_camera_y_and_target:
  "map_option position_y (cameraRef (setupCamera initialViewer)) = Some 0.4 \<and>
   map_option target_y (cameraRef (setupCamera initialViewer)) = Some (- 0.2) \<and>
   map_option position_y
     (cameraRef (onPanResponderMove [touchAt 0 0, touchAt 3 4] \<lparr>dx = 0, dy = 0\<rparr>
        (setupCamera initialViewer))) = Some 0.75 \<and>
   map_option target_y
     (cameraRef (onPanResponderMove [touchAt 0 0, touchAt 3 4] \<lparr>dx = 0, dy = 0\<rparr>
        (setupCamera initialViewer))) = Some (- 0.3) \<and>
   zoomRef (onPanResponderMove [touchAt 0 0, touchAt 3 4] \<lparr>dx = 0, dy = 0\<rparr>
        (setupCamera initialViewer)) = Fin 2"
  by (simp add: onPanResponderMove_def setupCamera_def initialViewer_def initialCamera_def
      pinchZoom_def pinchDistance_def touchAt_def Let_def)

lemma step_keeps_request: "frameRequested s \<Longrightarrow> frameRequested (step ar e s)"
  by (cases e)
    (auto simp: onPanResponderGrant_def onPanResponderMove_def onPanResponderRelease_def
      rotateModel_def pinchZoom_def render_def Let_def split: option.splits)

lemma step_frames:
  "frameRequested s \<Longrightarrow>
   framesRendered (step ar e s) = framesRendered s + (if e = AnimationFrame then 1 else 0)"
  by (cases e)
    (auto simp: onPanResponderGrant_def onPanResponderMove_def onPanResponderRelease_def
      rotateModel_def pinchZoom_def render_def Let_def split: option.splits)

text \<open>
  C9, as the code has it. \<open>render\<close> requests the next frame on every call and nothing
  cancels a request: once a frame is requested, after any sequence of events, the unmount
  among them, a frame is still requested, and every animation frame has run \<open>render\<close>.
\<close>

theorem render_keeps_rescheduling:
  assumes "frameRequested s"
  shows "frameRequested (run ar evs s) \<and>
         framesRendered (run ar evs s) = framesRendered s + count_list evs AnimationFrame"
  using assms
proof (induction evs arbitrary: s)
  case Nil
  then show ?case by simp
next
  case (Cons e es)
  have r: "frameRequested (step ar e s)" using Cons.prems by (rule step_keeps_request)
  show ?case
    using Cons.IH [OF r] step_frames [OF Cons.prems, of ar e] by simp
qed

lemma render_request: "frameRequested (render ar s)"
  by (simp add: render_def Let_def)

lemma render_frames: "framesRendered (render ar s) = framesRendered s + 1"
  by (simp add: render_def Let_def)

lemma render_mounted: "mounted (render ar s) = mounted s"
  by (simp add: render_def Let_def)

lemma started_request: "frameRequested startedViewer"
  by (simp add: startedViewer_def onContextCreate_def Let_def render_request)

lemma started_frames: "framesRendered startedViewer = 1"
  by (simp add: startedViewer_def onContextCreate_def Let_def render_frames
      loadModelOrFallback_def loadModel_def createReactNativeCompatibleLoader_def
      onModelLoadFailed_def createFallbackModel_def setupLighting_def setupCamera_def
      initialViewer_def)

text \<open>
  C9 as stated fails: after the unmount the next animation frame runs \<open>render\<close> (the
  count goes from 1 to 2) and leaves a new frame request behind.
\<close>

theorem render_fires_after_unmount:
  "\<not> mounted (run True [Unmount] startedViewer) \<and>
   framesRendered (run True [Unmount] startedViewer) = 1 \<and>
   framesRendered (run True [Unmount, AnimationFrame] startedViewer) = 2 \<and>
   frameRequested (run True [Unmount, AnimationFrame] startedViewer)"
  using started_request started_frames by (simp add: render_request render_frames)

theorem render_keeps_rescheduling_witness:
  "frameRequested (run True [Unmount, AnimationFrame, AnimationFrame] startedViewer) \<and>
   framesRendered (run True [Unmount, AnimationFrame, AnimationFrame] startedViewer) =
     framesRendered startedViewer + count_list [Unmount, AnimationFrame, AnimationFrame] AnimationFrame"
  using render_keeps_rescheduling [OF started_request] by blast

lemma fallback_children: "length (children fallbackModel) = 4 \<and> list_all isBoxMesh (children fallbackModel) \<and> \<not> isMesh (props fallbackModel)"
  by (simp add: fallbackModel_def newGroup_def newMesh_def Let_def)

lemma onModelLoadFailed_shows: "showsFallback s (onModelLoadFailed msg s)"
  by (simp add: showsFallback_def onModelLoadFailed_def createFallbackModel_def)

lemma onModelError_shows: "showsFallback s (onModelError e s)"
  by (simp add: showsFallback_def onModelError_def createFallbackModel_def)

lemma onModelLoaded_no_scene:
  "gltf_scene g = None \<Longrightarrow> showsFallback s (onModelLoaded lc pf g s)"
  by (simp add: showsFallback_def onModelLoaded_def createFallbackModel_def)

text \<open>
  What the failure handlers that call \<open>createFallbackModel\<close> do. Whenever the inner
  \<open>try\<close> of \<open>onContextCreate\<close> fails, for whatever reason, and whenever the loader of
  \<open>loadMotorcycleModel\<close> reports a failure or delivers a result without a scene, the
  fallback model is added to the scene, the model reference is set to it and the loading
  state ends. The fallback model is a group of four meshes, each on a box.
\<close>

lemma handlers_show_fallback:
  "(loadModel pf available assetLoaded outcome s = Inl msg \<longrightarrow>
      showsFallback s (loadModelOrFallback pf available assetLoaded outcome s)) \<and>
   (resolved = Some uri \<and> uri \<noteq> [] \<and>
    createReactNativeCompatibleLoader pf True = Some cls \<and> loaderLoad cls outcome = Inl e \<longrightarrow>
      showsFallback s (loadMotorcycleModel lc pf True resolved outcome s)) \<and>
   (resolved = Some uri \<and> uri \<noteq> [] \<and>
    createReactNativeCompatibleLoader pf True = Some cls \<and> loaderLoad cls outcome = Inr g \<and>
    gltf_scene g = None \<longrightarrow>
      showsFallback s (loadMotorcycleModel lc pf True resolved outcome s)) \<and>
   length (children fallbackModel) = 4 \<and> list_all isBoxMesh (children fallbackModel) \<and>
   \<not> isMesh (props fallbackModel)"
proof -
  have a: "showsFallback s (loadModelOrFallback pf available assetLoaded outcome s)"
    if "loadModel pf available assetLoaded outcome s = Inl msg"
    using that onModelLoadFailed_shows by (simp add: loadModelOrFallback_def)
  have b: "showsFallback s (loadMotorcycleModel lc pf True resolved outcome s)"
    if "resolved = Some uri" "uri \<noteq> []" "createReactNativeCompatibleLoader pf True = Some cls"
      "loaderLoad cls outcome = Inl e"
    using that onModelError_shows by (simp add: loadMotorcycleModel_def)
  have c: "showsFallback s (loadMotorcycleModel lc pf True resolved outcome s)"
    if "resolved = Some uri" "uri \<noteq> []" "createReactNativeCompatibleLoader pf True = Some cls"
      "loaderLoad cls outcome = Inr g" "gltf_scene g = None"
    using that onModelLoaded_no_scene by (simp add: loadMotorcycleModel_def)
  show ?thesis using a b c fallback_children by simp
qed

text \<open>
  C7, at failures that do not reach those handlers. In \<open>loadMotorcycleModel\<close>, when
  the asset cannot be resolved, and when the loader of the library is missing, the
  viewer gets a group of one box and stays in the loading state. In
  \<open>onContextCreate\<close>, when the lookup of the asset raises, the loading state ends but
  no model is added at all.
\<close>

theorem unresolved_asset_shows_no_fallback:
  "loading (loadMotorcycleModel asciiToLowerCase Native True None
      (ParseFailed ''unreachable'') initialViewer) \<and>
   map_option (length \<circ> children)
     (bikeModelRef (loadMotorcycleModel asciiToLowerCase Native True None
        (ParseFailed ''unreachable'') initialViewer)) = Some 1 \<and>
   loading (loadMotorcycleModel asciiToLowerCase Native False (Some ''model.glb'')
      (ParseFailed ''unreachable'') initialViewer) \<and>
   map_option (length \<circ> children)
     (bikeModelRef (loadMotorcycleModel asciiToLowerCase Native False (Some ''model.glb'')
        (ParseFailed ''unreachable'') initialViewer)) = Some 1 \<and>
   bikeModelRef (onContextCreate Native True False True True (ParseFailed ''unreachable'')
      True initialViewer) = None \<and>
   length (children fallbackModel) = 4"
  by (simp add: loadMotorcycleModel_def boxBikeGroup_def newGroup_def Let_def
      initialViewer_def onContextCreate_def setupLighting_def setupCamera_def
      fallbackModel_def)

lemma startsWith_iff: "startsWith s sub = (\<exists>ss. s = sub @ ss)"
  by (induction s sub rule: startsWith.induct) auto

lemma includes_str_iff: "includes_str s sub = (\<exists>ps ss. s = ps @ sub @ ss)"
proof (induction s)
  case Nil
  then show ?case by auto
next
  case (Cons x xs)
  show ?case
  proof
    assume "includes_str (x # xs) sub"
    then consider "startsWith (x # xs) sub" | "includes_str xs sub" by auto
    then show "\<exists>ps ss. x # xs = ps @ sub @ ss"
    proof cases
      case 1
      then obtain ss where "x # xs = sub @ ss" using startsWith_iff by blast
      then have "x # xs = [] @ sub @ ss" by simp
      then show ?thesis by blast
    next
      case 2
      then obtain ps ss where "xs = ps @ sub @ ss" using Cons.IH by blast
      then have "x # xs = (x # ps) @ sub @ ss" by simp
      then show ?thesis by blast
    qed
  next
    assume "\<exists>ps ss. x # xs = ps @ sub @ ss"
    then obtain ps ss where e: "x # xs = ps @ sub @ ss" by blast
    show "includes_str (x # xs) sub"
    proof (cases ps)
      case Nil
      then have "startsWith (x # xs) sub" using e startsWith_iff by auto
      then show ?thesis by simp
    next
      case (Cons p ps')
      then have "xs = ps' @ sub @ ss" using e by simp
      then have "includes_str xs sub" using Cons.IH by blast
      then show ?thesis by simp
    qed
  qed
qed

lemma includes_str_suffix: "includes_str s (a @ b) \<Longrightarrow> includes_str s b"
proof -
  assume "includes_str s (a @ b)"
  then obtain ps ss where "s = ps @ (a @ b) @ ss" using includes_str_iff by blast
  then have "s = (ps @ a) @ b @ ss" by simp
  then show ?thesis using includes_str_iff by blast
qed

lemma headlight_light: "includes_str s ''headlight'' \<Longrightarrow> includes_str s ''light''"
  using includes_str_suffix [of s "''head''" "''light''"] by simp

lemma taillight_light: "includes_str s ''taillight'' \<Longrightarrow> includes_str s ''light''"
  using includes_str_suffix [of s "''tail''" "''light''"] by simp

lemma body_spec:
  "\<not> list_ex (includes_str mn) meshOnlyKeywords \<Longrightarrow>
   bodyKeywords mn sn = nameMatches [''body'', ''fairing'', ''tank'', ''paint''] mn sn"
  by (auto simp: bodyKeywords_def nameMatches_def meshOnlyKeywords_def)

lemma chrome_spec:
  "\<not> list_ex (includes_str mn) meshOnlyKeywords \<Longrightarrow>
   chromeKeywords mn sn = nameMatches [''metal'', ''chrome'', ''silver'', ''exhaust''] mn sn"
  by (auto simp: chromeKeywords_def nameMatches_def meshOnlyKeywords_def)

lemma rubber_spec:
  "\<not> list_ex (includes_str mn) meshOnlyKeywords \<Longrightarrow>
   rubberKeywords mn sn = nameMatches [''rubber'', ''tire'', ''wheel''] mn sn"
  by (auto simp: rubberKeywords_def nameMatches_def meshOnlyKeywords_def)

lemma glass_spec:
  "glassKeywords mn sn = nameMatches [''glass'', ''window'', ''screen'', ''visor''] mn sn"
  by (auto simp: glassKeywords_def nameMatches_def)

lemma light_spec:
  "\<not> list_ex (includes_str mn) meshOnlyKeywords \<Longrightarrow>
   lightKeywords mn sn =
     nameMatches [''light'', ''headlight'', ''taillight'', ''lamp'', ''led''] mn sn"
  using headlight_light [of sn] taillight_light [of sn]
  by (auto simp: lightKeywords_def nameMatches_def meshOnlyKeywords_def)

lemma seat_spec:
  "\<not> list_ex (includes_str mn) meshOnlyKeywords \<Longrightarrow>
   seatKeywords mn sn = nameMatches [''seat'', ''saddle''] mn sn"
  by (auto simp: seatKeywords_def nameMatches_def meshOnlyKeywords_def)

lemma accent_spec:
  "\<not> list_ex (includes_str mn) meshOnlyKeywords \<Longrightarrow>
   accentKeywords mn sn =
     nameMatches [''accent'', ''detail'', ''stripe'', ''logo'', ''badge''] mn sn"
  by (auto simp: accentKeywords_def nameMatches_def meshOnlyKeywords_def)

lemma carbon_spec:
  "\<not> list_ex (includes_str mn) meshOnlyKeywords \<Longrightarrow>
   carbonKeywords mn sn = nameMatches [''carbon'', ''fiber''] mn sn"
  by (auto simp: carbonKeywords_def nameMatches_def meshOnlyKeywords_def)

lemma classify_spec:
  assumes "\<not> list_ex (includes_str mn) meshOnlyKeywords"
  shows "classify mn sn g = (if largeGeometry g then BodyPaint else specCategory mn sn)"
  by (simp add: classify_def specCategory_def specKeywords_def
      body_spec [OF assms] chrome_spec [OF assms] rubber_spec [OF assms] glass_spec
      light_spec [OF assms] seat_spec [OF assms] accent_spec [OF assms] carbon_spec [OF assms])

lemma no_spec_keyword:
  assumes "\<not> specAnyKeyword mn sn"
  shows "\<not> bodyKeywords mn sn \<and> \<not> chromeKeywords mn sn \<and> \<not> rubberKeywords mn sn \<and>
         \<not> glassKeywords mn sn \<and> \<not> lightKeywords mn sn \<and> \<not> seatKeywords mn sn \<and>
         \<not> accentKeywords mn sn \<and> \<not> carbonKeywords mn sn"
  using assms
  by (simp add: specAnyKeyword_def specKeywords_def nameMatches_def bodyKeywords_def
      chromeKeywords_def rubberKeywords_def glassKeywords_def lightKeywords_def
      seatKeywords_def accentKeywords_def carbonKeywords_def)

lemma no_keyword_default:
  "\<not> specAnyKeyword mn sn \<Longrightarrow> classify mn sn g = (if largeGeometry g then BodyPaint else Default)"
  using no_spec_keyword [of mn sn] by (simp add: classify_def)

lemma large_body_paint: "largeGeometry g \<Longrightarrow> classify mn sn g = BodyPaint"
  by (simp add: classify_def)

lemma front_tire_rubber:
  assumes "\<not> specAnyKeyword mn []" and "\<not> largeGeometry g"
  shows "classify mn ''front_tire'' g = Rubber"
proof -
  have "\<not> includes_str mn ''body'' \<and> \<not> includes_str mn ''fairing'' \<and>
      \<not> includes_str mn ''tank'' \<and> \<not> includes_str mn ''metal'' \<and> \<not> includes_str mn ''chrome''"
    using assms(1) by (simp add: specAnyKeyword_def specKeywords_def nameMatches_def)
  then show ?thesis
    using assms(2)
    by (simp add: classify_def bodyKeywords_def chromeKeywords_def rubberKeywords_def)
qed

lemma applyPreset_ok: "emissive m \<noteq> None \<Longrightarrow> \<exists>m'. applyPreset c m = Inr m'"
  by (cases c) (auto simp: setEmissiveHex_def setColorHex_def)

lemma prepareClone_keeps: "emissive (prepareClone pf m) = emissive m \<and> mat_name (prepareClone pf m) = mat_name m"
  by (simp add: prepareClone_def Let_def)

lemma processChild_preset:
  assumes "isMesh child" and "material child = Some (Single m)" and "emissive m \<noteq> None"
  shows "\<exists>m'. applyPreset (classify (lc (mat_name m)) (lc (obj_name child)) (geometry child))
                 (prepareClone pf m) = Inr m' \<and>
              material (processChild lc pf child) = Some (Single (m'\<lparr>needsUpdate := True\<rparr>))"
proof -
  let ?c = "classify (lc (mat_name m)) (lc (obj_name child)) (geometry child)"
  have "emissive (prepareClone pf m) \<noteq> None" using assms(3) prepareClone_keeps by simp
  then obtain m' where m': "applyPreset ?c (prepareClone pf m) = Inr m'"
    using applyPreset_ok by blast
  have "material (processChild lc pf child) = Some (Single (m'\<lparr>needsUpdate := True\<rparr>))"
    using assms(1,2) m' prepareClone_keeps [of pf m]
    by (simp add: processChild_def processMaterial_def Let_def)
  then show ?thesis using m' by blast
qed

lemma lower_body_paint: "asciiToLowerCase ''Body_Paint_01'' = ''body_paint_01''"
  by code_simp

lemma lower_front_tire: "asciiToLowerCase ''Front_Tire'' = ''front_tire''"
  by code_simp

text \<open>
  C1, as the code has it. For a mesh whose material is a single material with an
  emissive colour, the pass writes the preset of one category, the one \<open>classify\<close>
  gives for the lower-cased material name and mesh name and the geometry. That category
  is BodyPaint when the mesh has more than 5000 vertices. Otherwise, when the material
  name contains none of the keywords that the source looks for in the mesh name only, it
  is the category of the specification: the first one, in the order of the list, with a
  keyword in the material name or the mesh name, and Default if there is none. Material
  name "Body_Paint_01" with mesh name "chassis" yields BodyPaint; mesh name "Front_Tire"
  with a material name without keywords yields Rubber when the mesh has at most 5000
  vertices; a mesh without keywords yields BodyPaint with 8000 vertices and Default with
  200.
\<close>

theorem pass_assigns_category_after_geometry_test:
  "(isMesh child \<and> material child = Some (Single m) \<and> emissive m \<noteq> None \<longrightarrow>
      (\<exists>m'. applyPreset (classify (lc (mat_name m)) (lc (obj_name child)) (geometry child))
                (prepareClone pf m) = Inr m' \<and>
             material (processChild lc pf child) = Some (Single (m'\<lparr>needsUpdate := True\<rparr>)))) \<and>
   (largeGeometry g \<longrightarrow> classify mn sn g = BodyPaint) \<and>
   (\<not> largeGeometry g \<and> \<not> list_ex (includes_str mn) meshOnlyKeywords \<longrightarrow>
      classify mn sn g = specCategory mn sn) \<and>
   classify (asciiToLowerCase ''Body_Paint_01'') (asciiToLowerCase ''chassis'') g = BodyPaint \<and>
   (\<not> specAnyKeyword mn [] \<and> \<not> largeGeometry g \<longrightarrow>
      classify mn (asciiToLowerCase ''Front_Tire'') g = Rubber) \<and>
   (\<not> specAnyKeyword mn sn \<longrightarrow> classify mn sn (Some (BufferGeometry (Some 8000))) = BodyPaint) \<and>
   (\<not> specAnyKeyword mn sn \<longrightarrow> classify mn sn (Some (BufferGeometry (Some 200))) = Default)"
proof -
  have ex1: "classify (asciiToLowerCase ''Body_Paint_01'') (asciiToLowerCase ''chassis'') g = BodyPaint"
    by (simp add: lower_body_paint classify_def bodyKeywords_def)
  have ex3: "classify mn sn (Some (BufferGeometry (Some 8000))) = BodyPaint"
    by (simp add: large_body_paint largeGeometry_def)
  have ex4: "classify mn sn (Some (BufferGeometry (Some 200))) = Default" if "\<not> specAnyKeyword mn sn"
    using that by (simp add: no_keyword_default largeGeometry_def)
  show ?thesis
    using processChild_preset [of child m lc pf] large_body_paint [of g mn sn]
      classify_spec [of mn sn g] ex1 front_tire_rubber [of mn g] ex3 ex4
    by (simp add: lower_front_tire)
qed

lemma plastic_no_keyword: "\<not> specAnyKeyword ''plastic'' []"
  by (simp add: specAnyKeyword_def specKeywords_def nameMatches_def)

lemma plastic_part_no_keyword: "\<not> specAnyKeyword ''plastic'' ''part''"
  by (simp add: specAnyKeyword_def specKeywords_def nameMatches_def)

lemma plastic_no_mesh_only: "\<not> list_ex (includes_str ''plastic'') meshOnlyKeywords"
  by (simp add: meshOnlyKeywords_def)

theorem pass_assigns_category_after_geometry_test_witness:
  "(\<exists>m'. applyPreset
            (classify (asciiToLowerCase (mat_name (meshStandardMaterial 0xffffff 1 0)))
               (asciiToLowerCase (obj_name (props (newMesh (BufferGeometry (Some 200)) (meshStandardMaterial 0xffffff 1 0)))))
               (geometry (props (newMesh (BufferGeometry (Some 200)) (meshStandardMaterial 0xffffff 1 0)))))
            (prepareClone Native (meshStandardMaterial 0xffffff 1 0)) = Inr m' \<and>
          material (processChild asciiToLowerCase Native
             (props (newMesh (BufferGeometry (Some 200)) (meshStandardMaterial 0xffffff 1 0)))) =
            Some (Single (m'\<lparr>needsUpdate := True\<rparr>))) \<and>
   classify ''plastic'' ''part'' (Some (BufferGeometry (Some 5001))) = BodyPaint \<and>
   classify ''plastic'' ''part'' (Some (BufferGeometry (Some 5000))) = specCategory ''plastic'' ''part'' \<and>
   classify ''plastic'' (asciiToLowerCase ''Front_Tire'') (Some (BufferGeometry (Some 5000))) = Rubber \<and>
   classify ''plastic'' ''part'' (Some (BufferGeometry (Some 8000))) = BodyPaint \<and>
   classify ''plastic'' ''part'' (Some (BufferGeometry (Some 200))) = Default"
proof -
  let ?mat = "meshStandardMaterial 0xffffff 1 0"
  let ?child = "props (newMesh (BufferGeometry (Some 200)) ?mat)"
  have c: "isMesh ?child \<and> material ?child = Some (Single ?mat) \<and> emissive ?mat \<noteq> None"
    by (simp add: newMesh_def meshStandardMaterial_def)
  have g: "\<not> largeGeometry (Some (BufferGeometry (Some 5000)))"
    by (simp add: largeGeometry_def)
  have l: "largeGeometry (Some (BufferGeometry (Some 5001)))"
    by (simp add: largeGeometry_def)
  show ?thesis
    using pass_assigns_category_after_geometry_test
        [of ?child ?mat asciiToLowerCase Native "Some (BufferGeometry (Some 5000))" "''plastic''" "''part''"]
      pass_assigns_category_after_geometry_test
        [of ?child ?mat asciiToLowerCase Native "Some (BufferGeometry (Some 5001))" "''plastic''" "''part''"]
      c g l plastic_no_keyword plastic_part_no_keyword plastic_no_mesh_only
    by blast
qed

text \<open>
  C1 as stated fails: mesh name "Front_Tire", a material name without keywords, and 8000
  vertices yield BodyPaint, not Rubber.
\<close>

theorem front_tire_with_8000_vertices_is_body_paint:
  "\<not> specAnyKeyword (asciiToLowerCase ''Plastic'') [] \<and>
   classify (asciiToLowerCase ''Plastic'') (asciiToLowerCase ''Front_Tire'')
     (Some (BufferGeometry (Some 8000))) = BodyPaint"
proof -
  have l: "asciiToLowerCase ''Plastic'' = ''plastic''" by code_simp
  show ?thesis
    by (simp add: l plastic_no_keyword large_body_paint largeGeometry_def)
qed

text \<open>
  Where the source and the specification part: "paint" is a keyword of BodyPaint, and the
  source looks for it in the mesh name only. The statement of C1 above says nothing of
  such material names.
\<close>

lemma material_name_paint_is_not_looked_for:
  "classify (asciiToLowerCase ''Paint_Red'') (asciiToLowerCase ''x'') (Some (BufferGeometry (Some 10))) =
     Default \<and>
   specCategory (asciiToLowerCase ''Paint_Red'') (asciiToLowerCase ''x'') = BodyPaint"
proof -
  have l: "asciiToLowerCase ''Paint_Red'' = ''paint_red''" "asciiToLowerCase ''x'' = ''x''"
    by code_simp+
  show ?thesis
    by (simp add: l classify_def largeGeometry_def bodyKeywords_def chromeKeywords_def
        rubberKeywords_def glassKeywords_def lightKeywords_def seatKeywords_def
        accentKeywords_def carbonKeywords_def specCategory_def specKeywords_def nameMatches_def)
qed

lemma tire_rubber:
  assumes "includes_str mn ''tire'' \<or> includes_str sn ''tire''"
    and "\<not> nameMatches [''body'', ''fairing'', ''tank'', ''paint''] mn sn"
    and "\<not> nameMatches [''metal'', ''chrome'', ''silver'', ''exhaust''] mn sn"
  shows "classify mn sn g = (if largeGeometry g then BodyPaint else Rubber)"
  using assms
  by (auto simp: classify_def nameMatches_def bodyKeywords_def chromeKeywords_def
      rubberKeywords_def)

text \<open>
  C2, as the code has it. The vertex-count test is part of the BodyPaint test, which comes
  first: a mesh with more than 5000 vertices is BodyPaint whatever its names contain, and
  only a mesh with at most 5000 vertices (or without a vertex count) is classified by its
  names alone. A mesh with "tire" in one of its names and no keyword of BodyPaint or
  Chrome in either is Rubber with at most 5000 vertices and BodyPaint with more.
\<close>

theorem geometry_test_comes_before_keywords:
  "(largeGeometry g \<longrightarrow> classify mn sn g = BodyPaint) \<and>
   largeGeometry g = (\<exists>n. positionCount g = Some n \<and> 5000 < n) \<and>
   (\<not> largeGeometry g \<longrightarrow> classify mn sn g = classify mn sn None) \<and>
   ((includes_str mn ''tire'' \<or> includes_str sn ''tire'') \<and>
    \<not> nameMatches [''body'', ''fairing'', ''tank'', ''paint''] mn sn \<and>
    \<not> nameMatches [''metal'', ''chrome'', ''silver'', ''exhaust''] mn sn \<longrightarrow>
      classify mn sn g = (if largeGeometry g then BodyPaint else Rubber))"
proof -
  have b: "largeGeometry g = (\<exists>n. positionCount g = Some n \<and> 5000 < n)"
    by (simp add: largeGeometry_def split: option.splits)
  have c: "classify mn sn g = classify mn sn None" if "\<not> largeGeometry g"
    using that by (simp add: classify_def largeGeometry_def)
  show ?thesis using large_body_paint [of g mn sn] b c tire_rubber [of mn sn g] by blast
qed

theorem geometry_test_comes_before_keywords_witness:
  "classify ''rubber_black'' ''front_tire'' (Some (BufferGeometry (Some 6000))) = BodyPaint \<and>
   classify ''rubber_black'' ''front_tire'' (Some (BufferGeometry (Some 200))) =
     classify ''rubber_black'' ''front_tire'' None \<and>
   classify ''rubber_black'' ''front_tire'' (Some (BufferGeometry (Some 200))) =
     (if largeGeometry (Some (BufferGeometry (Some 200))) then BodyPaint else Rubber)"
proof -
  have g: "\<not> largeGeometry (Some (BufferGeometry (Some 200)))"
    by (simp add: largeGeometry_def)
  have l: "largeGeometry (Some (BufferGeometry (Some 6000)))"
    by (simp add: largeGeometry_def)
  have k: "(includes_str ''rubber_black'' ''tire'' \<or> includes_str ''front_tire'' ''tire'') \<and>
      \<not> nameMatches [''body'', ''fairing'', ''tank'', ''paint''] ''rubber_black'' ''front_tire'' \<and>
      \<not> nameMatches [''metal'', ''chrome'', ''silver'', ''exhaust''] ''rubber_black'' ''front_tire''"
    by (simp add: nameMatches_def)
  show ?thesis
    using geometry_test_comes_before_keywords
        [of "Some (BufferGeometry (Some 200))" "''rubber_black''" "''front_tire''"]
      geometry_test_comes_before_keywords
        [of "Some (BufferGeometry (Some 6000))" "''rubber_black''" "''front_tire''"] g l k
    by blast
qed

text \<open>
  C2 as stated fails: material name "Rubber_Black" and mesh name "Rear_Wheel" match the
  keywords of Rubber, and the mesh is Rubber with 200 vertices, yet with 6000 vertices it
  is BodyPaint.
\<close>

theorem large_tire_mesh_is_body_paint:
  "rubberKeywords (asciiToLowerCase ''Rubber_Black'') (asciiToLowerCase ''Rear_Wheel'') \<and>
   classify (asciiToLowerCase ''Rubber_Black'') (asciiToLowerCase ''Rear_Wheel'')
     (Some (BufferGeometry (Some 6000))) = BodyPaint \<and>
   classify (asciiToLowerCase ''Rubber_Black'') (asciiToLowerCase ''Rear_Wheel'')
     (Some (BufferGeometry (Some 200))) = Rubber"
proof -
  have l: "asciiToLowerCase ''Rubber_Black'' = ''rubber_black''"
    "asciiToLowerCase ''Rear_Wheel'' = ''rear_wheel''"
    by code_simp+
  show ?thesis
    by (simp add: l classify_def largeGeometry_def rubberKeywords_def bodyKeywords_def
        chromeKeywords_def)
qed

lemma noTextures_removeTextures: "noTextures (removeTextures m)"
  by (simp add: noTextures_def removeTextures_def)

lemma all_removeTextures: "list_all noTextures (map removeTextures ms)"
  by (induction ms) (simp_all add: noTextures_removeTextures)

lemma own_removeChildTextures: "list_all noTextures (ownMaterials (removeChildTextures p))"
proof (cases "material p")
  case None
  then show ?thesis by (simp add: ownMaterials_def removeChildTextures_def)
next
  case (Some slot)
  show ?thesis
  proof (cases slot)
    case (Single m)
    then show ?thesis using Some
      by (simp add: ownMaterials_def removeChildTextures_def noTextures_removeTextures)
  next
    case (Multi ms)
    then show ?thesis using Some
      by (simp add: ownMaterials_def removeChildTextures_def all_removeTextures)
  qed
qed

lemma meshMaterials_traverse:
  assumes "\<And>p. list_all P (ownMaterials (f p))"
  shows "list_all P (meshMaterials (traverse f sc))"
proof (induction sc)
  case (Object3D p cs)
  have "list_all P (concat (map (meshMaterials \<circ> traverse f) cs))"
    using Object3D.IH by (auto simp: list_all_iff)
  then show ?case using assms [of p] by simp
qed

lemma meshMaterials_traverse_keeps:
  assumes "\<And>p. list_all P (ownMaterials p) \<Longrightarrow> list_all P (ownMaterials (f p))"
    and "list_all P (meshMaterials sc)"
  shows "list_all P (meshMaterials (traverse f sc))"
  using assms(2)
proof (induction sc)
  case (Object3D p cs)
  have own: "list_all P (ownMaterials (f p))"
    using Object3D.prems assms(1) [of p] by simp
  have "list_all P (concat (map (meshMaterials \<circ> traverse f) cs))"
    using Object3D.IH Object3D.prems by (auto simp: list_all_iff)
  then show ?case using own by simp
qed

lemma setEmissiveHex_textures:
  "setEmissiveHex h m = Inr m' \<Longrightarrow> noTextures m' = noTextures m"
  by (auto simp: setEmissiveHex_def noTextures_def split: option.splits)

lemma setColorHex_textures: "noTextures (setColorHex h m) = noTextures m"
  by (simp add: setColorHex_def noTextures_def)

lemma applyPreset_textures:
  "applyPreset c m = Inr m' \<Longrightarrow> noTextures m \<Longrightarrow> noTextures m'"
  by (cases c) (auto simp: setColorHex_def noTextures_def setEmissiveHex_def split: option.splits)

lemma processMaterial_textures:
  assumes "pf \<noteq> Web" and "processMaterial lc pf n g m = Inr m'"
  shows "noTextures m'"
proof -
  define m3 where "m3 = prepareClone pf m"
  have n3: "noTextures m3"
    using assms(1) by (simp add: m3_def prepareClone_def noTextures_def Let_def)
  obtain m4 where m4: "applyPreset (classify (lc (mat_name m3)) (lc n) g) m3 = Inr m4"
    and res: "m' = m4\<lparr>needsUpdate := True\<rparr>"
    using assms by (auto simp: processMaterial_def m3_def Let_def split: sum.splits)
  have "noTextures m4" using m4 n3 by (rule applyPreset_textures)
  then show ?thesis by (simp add: res noTextures_def)
qed

lemma noTextures_fallbackMaterial: "noTextures fallbackMaterial"
  by (simp add: fallbackMaterial_def meshStandardMaterial_def noTextures_def)

lemma own_processChild:
  assumes "pf \<noteq> Web"
  shows "list_all noTextures (ownMaterials (processChild lc pf p))"
proof (cases "material p")
  case None
  then show ?thesis by (simp add: processChild_def ownMaterials_def)
next
  case (Some slot)
  show ?thesis
  proof (cases "isMesh p")
    case False
    then show ?thesis using Some by (simp add: processChild_def ownMaterials_def)
  next
    case True
    show ?thesis
    proof (cases slot)
      case (Multi ms)
      then show ?thesis using Some True
        by (simp add: processChild_def ownMaterials_def noTextures_fallbackMaterial)
    next
      case (Single m)
      show ?thesis
      proof (cases "processMaterial lc pf (obj_name p) (geometry p) m")
        case (Inl e)
        then show ?thesis using Some True Single
          by (simp add: processChild_def ownMaterials_def noTextures_fallbackMaterial)
      next
        case (Inr m')
        have "noTextures m'" using assms Inr by (rule processMaterial_textures)
        then show ?thesis using Some True Single Inr
          by (simp add: processChild_def ownMaterials_def)
      qed
    qed
  qed
qed

lemma prepareMaterial_textures: "noTextures (prepareMaterial m) = noTextures m"
  by (simp add: prepareMaterial_def noTextures_def)

lemma all_prepareMaterial:
  "list_all noTextures ms \<Longrightarrow> list_all noTextures (map prepareMaterial ms)"
  by (induction ms) (simp_all add: prepareMaterial_textures)

lemma own_prepareChild:
  assumes "list_all noTextures (ownMaterials p)"
  shows "list_all noTextures (ownMaterials (prepareChild p))"
proof (cases "material p")
  case None
  then show ?thesis by (simp add: ownMaterials_def prepareChild_def)
next
  case (Some slot)
  show ?thesis
  proof (cases slot)
    case (Single m)
    then show ?thesis using Some assms
      by (simp add: ownMaterials_def prepareChild_def prepareMaterial_textures split: if_splits)
  next
    case (Multi ms)
    then show ?thesis using Some assms
      by (simp add: ownMaterials_def prepareChild_def all_prepareMaterial split: if_splits)
  qed
qed

lemma meshMaterials_set_rotation_y: "meshMaterials (set_rotation_y r sc) = meshMaterials sc"
  by (cases sc) (simp add: ownMaterials_def)

lemma meshMaterials_set_rotation: "meshMaterials (set_rotation rx ry sc) = meshMaterials sc"
  by (cases sc) (simp add: ownMaterials_def)

text \<open>
  C6, as the code has it. On a platform that is not the web, with the loader of the
  library there: the success path of the loader hands over a scene graph in which every
  material of every mesh, of an array too, has its six texture slots null; and after the
  success callback of \<open>loadMotorcycleModel\<close>, and after the load of
  \<open>onContextCreate\<close>, the model the viewer holds is such a scene graph.
\<close>

theorem textures_cleared_off_the_web:
  assumes "pf \<noteq> Web" and "gltf_scene g = Some sc" and "uri \<noteq> []"
  shows "loaderLoad ReactNativeGLTFLoader (Parsed g) =
           Inr (g\<lparr>gltf_scene := Some (traverse removeChildTextures sc)\<rparr>) \<and>
         list_all noTextures (meshMaterials (traverse removeChildTextures sc)) \<and>
         createReactNativeCompatibleLoader pf True = Some ReactNativeGLTFLoader \<and>
         (\<exists>m. bikeModelRef (loadMotorcycleModel lc pf True (Some uri) (Parsed g) s) = Some m \<and>
            list_all noTextures (meshMaterials m)) \<and>
         (\<exists>m. bikeModelRef (loadModelOrFallback pf True True (Parsed g) s) = Some m \<and>
            list_all noTextures (meshMaterials m))"
proof -
  let ?sc1 = "traverse removeChildTextures sc"
  have clean: "list_all noTextures (meshMaterials ?sc1)"
    using own_removeChildTextures by (rule meshMaterials_traverse)
  have load: "loaderLoad ReactNativeGLTFLoader (Parsed g) = Inr (g\<lparr>gltf_scene := Some ?sc1\<rparr>)"
    using assms(2) by (simp add: removeProblematicTextures_def)
  have cls: "createReactNativeCompatibleLoader pf True = Some ReactNativeGLTFLoader"
    using assms(1) by (simp add: createReactNativeCompatibleLoader_def)
  have p: "list_all noTextures (meshMaterials (traverse (processChild lc pf) ?sc1))"
    using own_processChild [OF assms(1)] by (rule meshMaterials_traverse)
  have a: "bikeModelRef (loadMotorcycleModel lc pf True (Some uri) (Parsed g) s) =
      Some (set_rotation_y (pi * 0.15) (traverse (processChild lc pf) ?sc1))"
    using assms(3) cls load by (simp add: loadMotorcycleModel_def onModelLoaded_def Let_def)
  have q: "list_all noTextures (meshMaterials (traverse prepareChild ?sc1))"
    using own_prepareChild clean by (rule meshMaterials_traverse_keeps)
  have b: "bikeModelRef (loadModelOrFallback pf True True (Parsed g) s) =
      Some (set_rotation (pi * 0.05) (pi * 0.25) (traverse prepareChild ?sc1))"
    using cls load by (simp add: loadModelOrFallback_def loadModel_def Let_def)
  show ?thesis
    using clean load cls p a q b
    by (simp add: meshMaterials_set_rotation_y meshMaterials_set_rotation)
qed

theorem textures_cleared_off_the_web_witness:
  "loaderLoad ReactNativeGLTFLoader (Parsed \<lparr>gltf_scene = Some texturedScene\<rparr>) =
     Inr (\<lparr>gltf_scene = Some texturedScene\<rparr>\<lparr>gltf_scene := Some (traverse removeChildTextures texturedScene)\<rparr>) \<and>
   list_all noTextures (meshMaterials (traverse removeChildTextures texturedScene)) \<and>
   createReactNativeCompatibleLoader Native True = Some ReactNativeGLTFLoader \<and>
   (\<exists>m. bikeModelRef (loadMotorcycleModel asciiToLowerCase Native True (Some ''model.glb'')
            (Parsed \<lparr>gltf_scene = Some texturedScene\<rparr>) initialViewer) = Some m \<and>
        list_all noTextures (meshMaterials m)) \<and>
   (\<exists>m. bikeModelRef (loadModelOrFallback Native True True
            (Parsed \<lparr>gltf_scene = Some texturedScene\<rparr>) initialViewer) = Some m \<and>
        list_all noTextures (meshMaterials m))"
proof -
  have a: "Native \<noteq> Web" by simp
  have b: "gltf_scene \<lparr>gltf_scene = Some texturedScene\<rparr> = Some texturedScene" by simp
  have c: "''model.glb'' \<noteq> []" by simp
  show ?thesis
    by (rule textures_cleared_off_the_web [OF a b c])
qed

lemma textured_has_textures: "\<not> noTextures texturedMaterial"
  by (simp add: texturedMaterial_def noTextures_def meshStandardMaterial_def)

lemma web_loader: "createReactNativeCompatibleLoader Web True = Some GLTFLoader"
  by (simp add: createReactNativeCompatibleLoader_def)

lemma web_first_material:
  "processMaterial asciiToLowerCase Web [] (Some (BufferGeometry (Some 200))) texturedMaterial =
     Inr (texturedMaterial\<lparr>color := Some (Color 0x7d7d7d), metalness := 0.5, roughness := 0.4,
            side := 2, needsUpdate := True\<rparr>)"
  by (simp add: processMaterial_def prepareClone_def Let_def texturedMaterial_def
      meshStandardMaterial_def asciiToLowerCase_def classify_def bodyKeywords_def chromeKeywords_def rubberKeywords_def
      glassKeywords_def lightKeywords_def seatKeywords_def accentKeywords_def carbonKeywords_def
      largeGeometry_def setColorHex_def)

text \<open>
  C6 as stated fails on the web: the loader is the one of the library, and in the model
  the viewer holds the material of the first mesh still has its textures.
\<close>

theorem textures_kept_on_the_web:
  "map_option (list_all noTextures \<circ> meshMaterials)
     (bikeModelRef (loadMotorcycleModel asciiToLowerCase Web True (Some ''model.glb'')
        (Parsed \<lparr>gltf_scene = Some texturedScene\<rparr>) initialViewer)) = Some False \<and>
   map_option (list_all noTextures \<circ> meshMaterials)
     (bikeModelRef (loadModelOrFallback Web True True
        (Parsed \<lparr>gltf_scene = Some texturedScene\<rparr>) initialViewer)) = Some False"
proof -
  have m1: "\<not> noTextures (texturedMaterial\<lparr>color := Some (Color 0x7d7d7d), metalness := 0.5,
      roughness := 0.4, side := 2, needsUpdate := True\<rparr>)"
    by (simp add: texturedMaterial_def noTextures_def meshStandardMaterial_def)
  have m2: "\<not> noTextures (prepareMaterial texturedMaterial)"
    by (simp add: prepareMaterial_def texturedMaterial_def noTextures_def meshStandardMaterial_def)
  have a: "map_option (list_all noTextures \<circ> meshMaterials)
     (bikeModelRef (loadMotorcycleModel asciiToLowerCase Web True (Some ''model.glb'')
        (Parsed \<lparr>gltf_scene = Some texturedScene\<rparr>) initialViewer)) = Some False"
    using m1
    by (simp add: loadMotorcycleModel_def web_loader onModelLoaded_def Let_def texturedScene_def
        newGroup_def newMesh_def processChild_def web_first_material ownMaterials_def)
  have b: "map_option (list_all noTextures \<circ> meshMaterials)
     (bikeModelRef (loadModelOrFallback Web True True
        (Parsed \<lparr>gltf_scene = Some texturedScene\<rparr>) initialViewer)) = Some False"
    using m2
    by (simp add: loadModelOrFallback_def loadModel_def web_loader Let_def texturedScene_def
        newGroup_def newMesh_def prepareChild_def ownMaterials_def)
  show ?thesis using a b by simp
qed

end
